theory Spec2Isabelle
  imports Complex_Main "HOL-Library.Product_Lexorder" "HOL-Library.Option_ord"
    "HOL-Library.AList" "HOL-Library.Multiset"
begin

section \<open>Stock price simulations: the lump-sum script and the monthly script\<close>

text \<open>
  The repository holds two scripts. \<^verbatim>\<open>main.py\<close> buys every stock of a basket once, on a
  fixed purchase date, and sells at the last row of the stock's CSV file. \<^verbatim>\<open>test.py\<close>
  buys every stock on the first day of each month and sells at the last row. Both collect
  one result per stock in a dictionary, add the profits up and sort the results by profit.

  The scripts are module-level code; every block of a script is a definition below, named
  after the variable the block computes. A definition that exists in both scripts carries
  the suffix \<open>_main\<close> or \<open>_test\<close>.
\<close>

subsection \<open>Timestamps\<close>

text \<open>
  \<^verbatim>\<open>pd.to_datetime(..., utc=True)\<close> turns the \<^verbatim>\<open>Date\<close> column into UTC timestamps. A
  timestamp is modelled by three numbers: its calendar month, counted from year 0
  (\<open>12 * year + (month - 1)\<close>), the days passed since the first day of that month
  (0 on the first day), and its time of day. Every triple is a timestamp, and the
  lexicographic order of the triples is the chronological order.
\<close>

type_synonym timestamp = "nat \<times> nat \<times> nat"

type_synonym calendar_day = "nat \<times> nat"

definition ymd :: "nat \<Rightarrow> nat \<Rightarrow> nat \<Rightarrow> calendar_day" where
  "ymd y m d = (12 * y + (m - 1), d - 1)"

definition at_time :: "calendar_day \<Rightarrow> nat \<Rightarrow> timestamp" where
  "at_time cd t = (fst cd, snd cd, t)"

definition month_of :: "timestamp \<Rightarrow> nat" where
  "month_of ts = fst ts"

definition day_of :: "timestamp \<Rightarrow> nat" where
  "day_of ts = Suc (fst (snd ts))"

definition time_of :: "timestamp \<Rightarrow> nat" where
  "time_of ts = snd (snd ts)"

text \<open>
  \<^verbatim>\<open>dt.strftime('%Y-%m-%d')\<close> keeps the calendar day of a timestamp and drops its time of
  day. The purchase date of \<^verbatim>\<open>main.py\<close> is a string of that format, that is a calendar day.
\<close>

definition strftime_Ymd :: "timestamp \<Rightarrow> calendar_day" where
  "strftime_Ymd ts = (fst ts, fst (snd ts))"

subsection \<open>Numbers\<close>

text \<open>
  Prices are numpy doubles. They are modelled as rationals: rounding is left out, and so
  is the overflow of a result too large for a double. A numpy division by zero raises
  nothing; it yields \<^verbatim>\<open>inf\<close>, \<^verbatim>\<open>-inf\<close> or \<^verbatim>\<open>nan\<close> with a warning.
  These three values are the one value \<open>NonFinite\<close>, which every later operation of the
  scripts passes on. The divisor of every division of the scripts is a price of the file
  or a budget, so it is a rational.
\<close>

datatype float64 = Finite rat | NonFinite

fun np_add :: "float64 \<Rightarrow> float64 \<Rightarrow> float64" where
  "np_add (Finite a) (Finite b) = Finite (a + b)"
| "np_add _ _ = NonFinite"

fun np_sub :: "float64 \<Rightarrow> rat \<Rightarrow> float64" where
  "np_sub (Finite a) b = Finite (a - b)"
| "np_sub NonFinite b = NonFinite"

fun np_mul :: "float64 \<Rightarrow> rat \<Rightarrow> float64" where
  "np_mul (Finite a) b = Finite (a * b)"
| "np_mul NonFinite b = NonFinite"

fun np_div :: "float64 \<Rightarrow> rat \<Rightarrow> float64" where
  "np_div (Finite a) b = (if b = 0 then NonFinite else Finite (a / b))"
| "np_div NonFinite b = NonFinite"

subsection \<open>Files\<close>

text \<open>
  A row of a CSV file after \<^verbatim>\<open>pd.to_datetime(data['Date'], errors='coerce', utc=True)\<close>:
  the date is \<open>None\<close> (pandas' \<^verbatim>\<open>NaT\<close>) where the text did not parse.
  \<^verbatim>\<open>data.dropna(subset=['Date'])\<close> removes these rows and keeps the order of the others.
\<close>

record csv_row =
  to_datetime :: "timestamp option"
  csv_Low :: rat
  csv_Close :: rat

record row =
  Date :: timestamp
  Low :: rat
  Close :: rat

fun dropna :: "csv_row list \<Rightarrow> row list" where
  "dropna [] = []"
| "dropna (r # rs) =
     (case to_datetime r of
        None \<Rightarrow> dropna rs
      | Some d \<Rightarrow> \<lparr>Date = d, Low = csv_Low r, Close = csv_Close r\<rparr> # dropna rs)"

record csv_file =
  columns :: "string list"
  rows :: "csv_row list"

text \<open>The data directory: the files it lists, by name; \<open>None\<close> when the path does not exist.\<close>

type_synonym directory = "(string \<times> csv_file) list"

subsection \<open>Errors and skips\<close>

text \<open>
  \<open>ZeroDivisionError\<close> and \<open>SystemExit\<close> are what Python raises at module level, where
  nothing catches them. \<open>EmptyBasketError\<close> is the name the specification gives to a
  guarded empty basket; no line of the scripts raises it.
\<close>

datatype error = ZeroDivisionError | SystemExit | EmptyBasketError

text \<open>
  The ways one stock leaves the loop body without a result (\<^verbatim>\<open>continue\<close>). \<open>InvalidPrice\<close>
  is the specification's marker for a rejected price; no branch of the scripts produces it.
\<close>

datatype skip =
  FileNotFound | MissingColumns | PurchaseDateNotFound | NoDataAfterStart | InvalidPrice

subsection \<open>The budget split (both scripts)\<close>

text \<open>\<^verbatim>\<open>split_percentage = 1 / len(target_files)\<close>: a division of Python integers.\<close>

definition split_percentage :: "string list \<Rightarrow> error + rat" where
  "split_percentage target_files =
     (if length target_files = 0 then Inl ZeroDivisionError
      else Inr (1 / of_nat (length target_files)))"

subsection \<open>\<^verbatim>\<open>main.py\<close>: one purchase per stock\<close>

record lump_result =
  Shares_Bought :: float64
  Purchase_Price :: rat
  Selling_Price :: rat
  Profit :: float64
  Profit_Percentage :: float64

text \<open>
  Lines 64 to 95 of \<^verbatim>\<open>main.py\<close>, on the rows left by \<open>dropna\<close>. The rows are in the
  order of the file: \<^verbatim>\<open>main.py\<close> does not sort them.
\<close>

definition lump_sum :: "rat \<Rightarrow> rat \<Rightarrow> calendar_day \<Rightarrow> row list \<Rightarrow> skip + lump_result" where
  "lump_sum total_budget split_pct purchase_date data =
     (case filter (\<lambda>r. strftime_Ymd (Date r) = purchase_date) data of
        [] \<Rightarrow> Inl PurchaseDateNotFound
      | p # _ \<Rightarrow>
          (let purchase_price = Low p;
               last_row = last data;
               selling_price = Close last_row;
               budget_for_stock = total_budget * split_pct;
               shares_bought = np_div (Finite budget_for_stock) purchase_price;
               profit = np_sub (np_mul shares_bought selling_price) budget_for_stock;
               profit_percentage = np_mul (np_div profit budget_for_stock) 100
           in Inr \<lparr>Shares_Bought = shares_bought,
                    Purchase_Price = purchase_price,
                    Selling_Price = selling_price,
                    Profit = profit,
                    Profit_Percentage = profit_percentage\<rparr>))"

text \<open>
  Lines 40 to 62: the file is looked up, its columns are checked, its dates parsed. The
  columns \<^verbatim>\<open>Low\<close> and \<^verbatim>\<open>Close\<close> hold numbers, so no statement of the \<^verbatim>\<open>try\<close> block raises
  and the \<^verbatim>\<open>except\<close> branch of lines 97 and 98, which would print the error and go on with
  the next stock, is never taken.
\<close>

definition required_columns :: "csv_file \<Rightarrow> bool" where
  "required_columns f = (set [''Date'', ''Low'', ''Close''] \<subseteq> set (columns f))"

definition process_main ::
  "directory \<Rightarrow> rat \<Rightarrow> rat \<Rightarrow> calendar_day \<Rightarrow> string \<Rightarrow> skip + lump_result" where
  "process_main dir total_budget split_pct purchase_date stock_name =
     (case map_of dir (stock_name @ ''.csv'') of
        None \<Rightarrow> Inl FileNotFound
      | Some f \<Rightarrow>
          if \<not> required_columns f then Inl MissingColumns
          else lump_sum total_budget split_pct purchase_date (dropna (rows f)))"

text \<open>
  Lines 27 and 39 to 101: the loop over the basket. \<^verbatim>\<open>results[stock_name] = ...\<close> on a
  Python dictionary replaces the value of a key that is present, in its place, and
  appends a new key at the end: \<open>AList.update\<close>. A skipped stock leaves the dictionary
  as it is.
\<close>

definition results_main ::
  "directory \<Rightarrow> rat \<Rightarrow> rat \<Rightarrow> calendar_day \<Rightarrow> string list \<Rightarrow> (string \<times> lump_result) list" where
  "results_main dir total_budget split_pct purchase_date target_files =
     foldl (\<lambda>results stock_name.
              case process_main dir total_budget split_pct purchase_date stock_name of
                Inl _ \<Rightarrow> results
              | Inr r \<Rightarrow> AList.update stock_name r results)
           [] target_files"

text \<open>Python's \<^verbatim>\<open>sum\<close> over numpy doubles: from 0, left to right.\<close>

definition np_sum :: "float64 list \<Rightarrow> float64" where
  "np_sum xs = foldl np_add (Finite 0) xs"

definition total_profit_main :: "(string \<times> lump_result) list \<Rightarrow> float64" where
  "total_profit_main results = np_sum (map (\<lambda>x. Profit (snd x)) results)"

text \<open>
  Line 105, \<^verbatim>\<open>(total_profit / total_budget) * 100\<close>. With no result the sum is the Python
  integer 0 and the division is Python's, which raises on a zero budget; with a result
  the sum is a numpy double and the division is numpy's.
\<close>

definition total_profit_percent_main ::
  "(string \<times> lump_result) list \<Rightarrow> rat \<Rightarrow> error + float64" where
  "total_profit_percent_main results total_budget =
     (if results = [] then
        (if total_budget = 0 then Inl ZeroDivisionError
         else Inr (Finite (0 / total_budget * 100)))
      else Inr (np_mul (np_div (total_profit_main results) total_budget) 100))"

subsection \<open>Sorting by profit (both scripts)\<close>

text \<open>
  Python compares the keys, numpy doubles, with \<^verbatim>\<open><\<close>. On finite keys this is the order of
  the rationals. \<open>NonFinite\<close> has no faithful place in an order (\<^verbatim>\<open>inf\<close> is above and
  \<^verbatim>\<open>-inf\<close> below every number, and with a \<^verbatim>\<open>nan\<close> among the keys \<^verbatim>\<open>sorted\<close> promises no
  order at all); the key below puts it under every number, and what is proved about the
  order is proved for finite keys.
\<close>

fun float_key :: "float64 \<Rightarrow> rat option" where
  "float_key (Finite q) = Some q"
| "float_key NonFinite = None"

text \<open>
  \<^verbatim>\<open>sorted(xs, key=..., reverse=True)\<close>: CPython reverses the list, sorts it with its
  stable sort and reverses the result. The result of a stable sort is determined by the
  keys, so the library's stable \<open>sort_key\<close> stands for it. Optional keys are ordered
  with \<open>None\<close> first.
\<close>

definition py_sorted_reverse :: "('a \<Rightarrow> 'k::linorder) \<Rightarrow> 'a list \<Rightarrow> 'a list" where
  "py_sorted_reverse key xs = rev (sort_key key (rev xs))"

definition sorted_results_main :: "(string \<times> lump_result) list \<Rightarrow> (string \<times> lump_result) list" where
  "sorted_results_main results = py_sorted_reverse (\<lambda>x. float_key (Profit (snd x))) results"

subsection \<open>\<^verbatim>\<open>main.py\<close>: the whole script\<close>

record main_report =
  table_main :: "(string \<times> lump_result) list"
  sum_main :: float64
  percent_main :: float64

text \<open>
  Line 24 divides before anything else runs. Lines 30 to 32 leave the script with
  \<^verbatim>\<open>exit()\<close> when the directory is missing or lists no file.
\<close>

definition main_py ::
  "directory option \<Rightarrow> string list \<Rightarrow> calendar_day \<Rightarrow> rat \<Rightarrow> error + main_report" where
  "main_py data_dir target_files purchase_date total_budget =
     (case split_percentage target_files of
        Inl e \<Rightarrow> Inl e
      | Inr split_pct \<Rightarrow>
          (case data_dir of
             None \<Rightarrow> Inl SystemExit
           | Some dir \<Rightarrow>
               if dir = [] then Inl SystemExit
               else
                 (let results = results_main dir total_budget split_pct purchase_date target_files
                  in case total_profit_percent_main results total_budget of
                       Inl e \<Rightarrow> Inl e
                     | Inr pct \<Rightarrow>
                         Inr \<lparr>table_main = sorted_results_main results,
                                  sum_main = total_profit_main results,
                                  percent_main = pct\<rparr>)))"

subsection \<open>\<^verbatim>\<open>test.py\<close>: the monthly dates\<close>

text \<open>
  \<^verbatim>\<open>pd.date_range(start=start_date, end=end_date, freq='MS')\<close>, as pandas computes it.
  A timestamp is on the offset \<^verbatim>\<open>MonthBegin\<close> when its day is 1. A start that is off the
  offset is rolled forward to the first day of the next month. Then one \<^verbatim>\<open>MonthBegin\<close>
  is added as long as the end is not passed. Rolling and adding keep the time of day, so
  every date of the range has the time of day of the start.

  The versions of pandas differ in one step. Before version 3, when the start is on the
  offset and the end is off it, the end is rolled back to the first day of its month (at
  its own time of day) before the dates are generated; from version 3 on the end stays
  as it is. The scripts name no version, so the version is a parameter.
\<close>

datatype pandas_version = Pandas_2 | Pandas_3

definition is_on_offset :: "timestamp \<Rightarrow> bool" where
  "is_on_offset ts = (day_of ts = 1)"

definition month_begin :: "timestamp \<Rightarrow> timestamp" where
  "month_begin ts = (month_of ts + 1, 0, time_of ts)"

definition rollforward :: "timestamp \<Rightarrow> timestamp" where
  "rollforward ts = (if is_on_offset ts then ts else month_begin ts)"

function generate_range :: "timestamp \<Rightarrow> timestamp \<Rightarrow> timestamp list" where
  "generate_range cur stop =
     (if cur \<le> stop then cur # generate_range (month_begin cur) stop else [])"
  by pat_completeness auto
termination
  by (relation "measure (\<lambda>(cur, stop). Suc (month_of stop) - month_of cur)")
     (auto simp: month_begin_def month_of_def)

declare generate_range.simps [simp del]

text \<open>
  The end that the dates are compared with: pandas before version 3 rolls an end that is
  off the offset back to the first day of its month, and only when the start is on the
  offset (the roll of the end is the \<^verbatim>\<open>elif\<close> of the roll of the start).
\<close>

definition rollback :: "timestamp \<Rightarrow> timestamp" where
  "rollback ts = (if is_on_offset ts then ts else (month_of ts, 0, time_of ts))"

definition adjusted_end :: "pandas_version \<Rightarrow> timestamp \<Rightarrow> timestamp \<Rightarrow> timestamp" where
  "adjusted_end pandas start stop =
     (if pandas = Pandas_2 \<and> is_on_offset start \<and> \<not> is_on_offset stop then rollback stop
      else stop)"

definition date_range_MS :: "pandas_version \<Rightarrow> timestamp \<Rightarrow> timestamp \<Rightarrow> timestamp list" where
  "date_range_MS pandas start stop =
     generate_range (rollforward start) (adjusted_end pandas start stop)"

subsection \<open>\<^verbatim>\<open>test.py\<close>: one purchase per month\<close>

record purchase =
  Date' :: timestamp
  Shares_Bought' :: float64
  Price :: rat

record monthly_result =
  Total_Shares :: float64
  Total_Investment :: rat
  Final_Price :: rat
  Profit' :: float64
  Profit_Percentage' :: float64

text \<open>
  Line 67, \<^verbatim>\<open>data[data['Date'] <= invest_date].iloc[-1:]\<close>: the rows up to the investment
  date, and of these the slice from the last position on, which is empty for no row.
\<close>

definition available_row :: "row list \<Rightarrow> timestamp \<Rightarrow> row list" where
  "available_row data invest_date =
     (let upto = filter (\<lambda>r. Date r \<le> invest_date) data
      in drop (length upto - 1) upto)"

text \<open>
  Lines 65 to 83, the body of the loop over the monthly dates. Its state is the pair of
  totals and the list \<^verbatim>\<open>investment_history[stock_name]\<close>.
\<close>

definition invest ::
  "row list \<Rightarrow> rat \<Rightarrow> rat \<Rightarrow> float64 \<times> rat \<times> purchase list \<Rightarrow> timestamp
     \<Rightarrow> float64 \<times> rat \<times> purchase list" where
  "invest data monthly_budget split_pct state invest_date =
     (case state of (total_shares, total_investment, history) \<Rightarrow>
        (case available_row data invest_date of
           [] \<Rightarrow> state
         | r # _ \<Rightarrow>
             (let low_price = Low r;
                  monthly_allocation = monthly_budget * split_pct;
                  shares_bought = np_div (Finite monthly_allocation) low_price
              in (np_add total_shares shares_bought,
                  total_investment + monthly_allocation,
                  history @ [\<lparr>Date' = invest_date,
                               Shares_Bought' = shares_bought,
                               Price = low_price\<rparr>]))))"

text \<open>
  Line 45 sorts the parsed rows by date and line 48 keeps the rows from the start of the
  investment on; the script calls both \<^verbatim>\<open>data\<close>. The sort of pandas fixes no order
  among rows of the same date; \<open>sort_key\<close> keeps them in the order of the file.
\<close>

definition sort_values :: "row list \<Rightarrow> row list" where
  "sort_values parsed = sort_key Date parsed"

definition restrict :: "timestamp \<Rightarrow> row list \<Rightarrow> row list" where
  "restrict start_investment_date sorted_rows =
     filter (\<lambda>r. start_investment_date \<le> Date r) sorted_rows"

text \<open>
  Lines 55 to 59 on the restricted rows, which are not empty there (line 50): the first
  and the last date, and the monthly dates between them.
\<close>

definition start_date :: "row list \<Rightarrow> timestamp" where
  "start_date data = Date (hd data)"

definition end_date :: "row list \<Rightarrow> timestamp" where
  "end_date data = Date (last data)"

definition monthly_dates :: "pandas_version \<Rightarrow> row list \<Rightarrow> timestamp list" where
  "monthly_dates pandas data = date_range_MS pandas (start_date data) (end_date data)"

text \<open>Lines 45 to 97, on the rows left by \<open>dropna\<close>.\<close>

definition monthly ::
  "pandas_version \<Rightarrow> rat \<Rightarrow> rat \<Rightarrow> timestamp \<Rightarrow> row list
     \<Rightarrow> skip + monthly_result \<times> purchase list" where
  "monthly pandas monthly_budget split_pct start_investment_date parsed =
     (let data = restrict start_investment_date (sort_values parsed)
      in if data = [] then Inl NoDataAfterStart
         else
           (case foldl (invest data monthly_budget split_pct) (Finite 0, 0, [])
                   (monthly_dates pandas data) of
              (total_shares, total_investment, history) \<Rightarrow>
                (let final_close_price = Close (last data);
                     profit = np_sub (np_mul total_shares final_close_price) total_investment;
                     profit_percentage =
                       (if total_investment > 0
                        then np_mul (np_div profit total_investment) 100
                        else Finite 0)
                 in Inr (\<lparr>Total_Shares = total_shares,
                           Total_Investment = total_investment,
                           Final_Price = final_close_price,
                           Profit' = profit,
                           Profit_Percentage' = profit_percentage\<rparr>,
                         history))))"

definition process_test ::
  "pandas_version \<Rightarrow> directory \<Rightarrow> rat \<Rightarrow> rat \<Rightarrow> timestamp \<Rightarrow> string
     \<Rightarrow> skip + monthly_result \<times> purchase list" where
  "process_test pandas dir monthly_budget split_pct start_investment_date stock_name =
     (case map_of dir (stock_name @ ''.csv'') of
        None \<Rightarrow> Inl FileNotFound
      | Some f \<Rightarrow>
          if \<not> required_columns f then Inl MissingColumns
          else monthly pandas monthly_budget split_pct start_investment_date
                 (dropna (rows f)))"

definition results_test ::
  "pandas_version \<Rightarrow> directory \<Rightarrow> rat \<Rightarrow> rat \<Rightarrow> timestamp \<Rightarrow> string list
     \<Rightarrow> (string \<times> monthly_result) list" where
  "results_test pandas dir monthly_budget split_pct start_investment_date target_files =
     foldl (\<lambda>results stock_name.
              case process_test pandas dir monthly_budget split_pct start_investment_date
                     stock_name of
                Inl _ \<Rightarrow> results
              | Inr (r, history) \<Rightarrow> AList.update stock_name r results)
           [] target_files"

definition total_profit_test :: "(string \<times> monthly_result) list \<Rightarrow> float64" where
  "total_profit_test results = np_sum (map (\<lambda>x. Profit' (snd x)) results)"

definition total_investment_test :: "(string \<times> monthly_result) list \<Rightarrow> rat" where
  "total_investment_test results = foldl (+) 0 (map (\<lambda>x. Total_Investment (snd x)) results)"

text \<open>Line 107, with its guard.\<close>

definition total_profit_percent_test :: "(string \<times> monthly_result) list \<Rightarrow> float64" where
  "total_profit_percent_test results =
     (let total_profit = total_profit_test results;
          total_investment = total_investment_test results
      in if total_investment > 0 then np_mul (np_div total_profit total_investment) 100
         else Finite 0)"

definition sorted_results_test ::
  "(string \<times> monthly_result) list \<Rightarrow> (string \<times> monthly_result) list" where
  "sorted_results_test results = py_sorted_reverse (\<lambda>x. float_key (Profit' (snd x))) results"

record test_report =
  table_test :: "(string \<times> monthly_result) list"
  invested_test :: rat
  sum_test :: float64
  percent_test :: float64

definition test_py ::
  "pandas_version \<Rightarrow> directory option \<Rightarrow> string list \<Rightarrow> timestamp \<Rightarrow> rat
     \<Rightarrow> error + test_report" where
  "test_py pandas data_dir target_files start_investment_date monthly_budget =
     (case split_percentage target_files of
        Inl e \<Rightarrow> Inl e
      | Inr split_pct \<Rightarrow>
          (case data_dir of
             None \<Rightarrow> Inl SystemExit
           | Some dir \<Rightarrow>
               if dir = [] then Inl SystemExit
               else
                 (let results =
                        results_test pandas dir monthly_budget split_pct start_investment_date
                          target_files
                  in Inr \<lparr>table_test = sorted_results_test results,
                           invested_test = total_investment_test results,
                           sum_test = total_profit_test results,
                           percent_test = total_profit_percent_test results\<rparr>)))"

subsection \<open>Example files\<close>

text \<open>
  A file whose rows are not in the order of their dates, with one date that does not
  parse and with times of day (05:00 and 04:00 UTC, in seconds): the rows that
  \<open>dropna\<close> leaves, and of these the rows from 2024-03-01 on, sorted.
\<close>

definition example_file :: csv_file where
  "example_file =
     \<lparr>columns = [''Date'', ''Open'', ''High'', ''Low'', ''Close''],
      rows = [\<lparr>to_datetime = Some (at_time (ymd 2024 6 3) 14400), csv_Low = 100, csv_Close = 110\<rparr>,
              \<lparr>to_datetime = None, csv_Low = 1, csv_Close = 1\<rparr>,
              \<lparr>to_datetime = Some (at_time (ymd 2024 2 28) 18000), csv_Low = 80, csv_Close = 85\<rparr>,
              \<lparr>to_datetime = Some (at_time (ymd 2024 3 4) 18000), csv_Low = 90, csv_Close = 95\<rparr>]\<rparr>"

definition example_parsed :: "row list" where
  "example_parsed =
     [\<lparr>Date = at_time (ymd 2024 6 3) 14400, Low = 100, Close = 110\<rparr>,
      \<lparr>Date = at_time (ymd 2024 2 28) 18000, Low = 80, Close = 85\<rparr>,
      \<lparr>Date = at_time (ymd 2024 3 4) 18000, Low = 90, Close = 95\<rparr>]"

definition example_data :: "row list" where
  "example_data =
     [\<lparr>Date = at_time (ymd 2024 3 4) 18000, Low = 90, Close = 95\<rparr>,
      \<lparr>Date = at_time (ymd 2024 6 3) 14400, Low = 100, Close = 110\<rparr>]"

text \<open>A file whose rows from 2024-03-01 on hold no first day of a month.\<close>

definition quiet_file :: csv_file where
  "quiet_file =
     \<lparr>columns = [''Date'', ''Low'', ''Close''],
      rows = [\<lparr>to_datetime = Some (at_time (ymd 2024 3 4) 0), csv_Low = 90, csv_Close = 95\<rparr>,
              \<lparr>to_datetime = Some (at_time (ymd 2024 3 20) 0), csv_Low = 100, csv_Close = 110\<rparr>]\<rparr>"

definition quiet_data :: "row list" where
  "quiet_data =
     [\<lparr>Date = at_time (ymd 2024 3 4) 0, Low = 90, Close = 95\<rparr>,
      \<lparr>Date = at_time (ymd 2024 3 20) 0, Low = 100, Close = 110\<rparr>]"




text \<open>Results as the two scripts store them, two of them with the same profit.\<close>

definition example_results_main :: "(string \<times> lump_result) list" where
  "example_results_main =
     [(''AAPL'', \<lparr>Shares_Bought = Finite 1, Purchase_Price = 10, Selling_Price = 12,
          Profit = Finite 2, Profit_Percentage = Finite 20\<rparr>),
      (''WMT'', \<lparr>Shares_Bought = Finite 1, Purchase_Price = 10, Selling_Price = 15,
          Profit = Finite 5, Profit_Percentage = Finite 50\<rparr>),
      (''MSFT'', \<lparr>Shares_Bought = Finite 2, Purchase_Price = 5, Selling_Price = 6,
          Profit = Finite 2, Profit_Percentage = Finite 20\<rparr>)]"

definition example_results_test :: "(string \<times> monthly_result) list" where
  "example_results_test =
     [(''AAPL'', \<lparr>Total_Shares = Finite 1, Total_Investment = 10, Final_Price = 9,
          Profit' = Finite (- 1), Profit_Percentage' = Finite (- 10)\<rparr>),
      (''WMT'', \<lparr>Total_Shares = Finite 2, Total_Investment = 10, Final_Price = 6,
          Profit' = Finite 2, Profit_Percentage' = Finite 20\<rparr>),
      (''MSFT'', \<lparr>Total_Shares = Finite 1, Total_Investment = 10, Final_Price = 9,
          Profit' = Finite (- 1), Profit_Percentage' = Finite (- 10)\<rparr>)]"

section \<open>Properties\<close>

subsection \<open>The example files\<close>

lemmas ts_defs = ymd_def at_time_def month_of_def day_of_def time_of_def strftime_Ymd_def
lemmas range_defs = monthly_dates_def start_date_def end_date_def date_range_MS_def
  adjusted_end_def rollback_def rollforward_def is_on_offset_def month_begin_def
  generate_range.simps

lemma example_data_restrict:
  "example_data = restrict (at_time (ymd 2024 3 1) 0) (sort_values example_parsed)"
  by (simp add: example_data_def example_parsed_def restrict_def sort_values_def ts_defs)

lemma example_monthly_dates:
  "monthly_dates pandas example_data =
     [at_time (ymd 2024 4 1) 18000, at_time (ymd 2024 5 1) 18000, at_time (ymd 2024 6 1) 18000]"
  by (simp add: example_data_def range_defs ts_defs)

lemma quiet_data_restrict:
  "quiet_data = restrict (at_time (ymd 2024 3 1) 0) (sort_values (dropna (rows quiet_file)))"
  by (simp add: quiet_data_def quiet_file_def restrict_def sort_values_def ts_defs)

lemma quiet_monthly_dates:
  "monthly_dates pandas quiet_data = []"
  by (simp add: quiet_data_def range_defs ts_defs)







lemma example_dropna:
  "dropna (rows example_file) = example_parsed"
  by (simp add: example_file_def example_parsed_def)

subsection \<open>The purchase row of \<^verbatim>\<open>main.py\<close>\<close>

lemma find_filter_Cons:
  "filter P xs = p # ps \<Longrightarrow> List.find P xs = Some p"
  by (induction xs) (auto split: if_splits)

lemma filter_nonempty_Cons:
  "r \<in> set xs \<Longrightarrow> P r \<Longrightarrow> \<exists>p ps. filter P xs = p # ps"
  by (cases "filter P xs") (auto simp: filter_empty_conv)

text \<open>
  Claim C1. When a row of the parsed file has the purchase date, the lump-sum script buys
  at the low of the first such row and sells at the close of the last row: the shares are
  the allocation divided by that low, the profit is the shares times the selling price
  less the allocation, and the percentage is the profit divided by the allocation times
  100. The allocation is the stock's part of the budget. For a price that is not zero
  the quotient is the quotient of the rationals. On the series of 2024-03-01 (low 90,
  close 95) and 2024-06-01 (low 100, close 110) with an allocation of 100 the shares are
  100/90, the selling price is 110, and the profit and the percentage are
  (100/90) * 110 - 100, which is 22.22 up to a hundredth.
\<close>

theorem lump_sum_formulas:
  "(r \<in> set data \<and> strftime_Ymd (Date r) = purchase_date \<longrightarrow>
      (\<exists>p res.
         List.find (\<lambda>r. strftime_Ymd (Date r) = purchase_date) data = Some p \<and>
         lump_sum total_budget split_pct purchase_date data = Inr res \<and>
         Purchase_Price res = Low p \<and>
         Shares_Bought res = np_div (Finite (total_budget * split_pct)) (Low p) \<and>
         Selling_Price res = Close (last data) \<and>
         Profit res =
           np_sub (np_mul (Shares_Bought res) (Selling_Price res)) (total_budget * split_pct) \<and>
         Profit_Percentage res = np_mul (np_div (Profit res) (total_budget * split_pct)) 100 \<and>
         (Low p \<noteq> 0 \<longrightarrow>
            Shares_Bought res = Finite (total_budget * split_pct / Low p) \<and>
            Profit res =
              Finite (total_budget * split_pct / Low p * Close (last data)
                      - total_budget * split_pct)))) \<and>
   lump_sum 100 1 (ymd 2024 3 1)
     [\<lparr>Date = at_time (ymd 2024 3 1) 0, Low = 90, Close = 95\<rparr>,
      \<lparr>Date = at_time (ymd 2024 6 1) 0, Low = 100, Close = 110\<rparr>] =
     Inr \<lparr>Shares_Bought = Finite (100 / 90), Purchase_Price = 90, Selling_Price = 110,
          Profit = Finite (100 / 90 * 110 - 100),
          Profit_Percentage = Finite ((100 / 90 * 110 - 100) / 100 * 100)\<rparr> \<and>
   \<bar>(100 / 90 * 110 - 100) - 2222 / 100\<bar> < (1 / 100 :: rat)"
proof (intro conjI impI)
  assume a: "r \<in> set data \<and> strftime_Ymd (Date r) = purchase_date"
  then obtain p ps where f: "filter (\<lambda>r. strftime_Ymd (Date r) = purchase_date) data = p # ps"
    using filter_nonempty_Cons[of r data "\<lambda>r. strftime_Ymd (Date r) = purchase_date"] by blast
  have "List.find (\<lambda>r. strftime_Ymd (Date r) = purchase_date) data = Some p"
    using f by (rule find_filter_Cons)
  then show "\<exists>p res.
         List.find (\<lambda>r. strftime_Ymd (Date r) = purchase_date) data = Some p \<and>
         lump_sum total_budget split_pct purchase_date data = Inr res \<and>
         Purchase_Price res = Low p \<and>
         Shares_Bought res = np_div (Finite (total_budget * split_pct)) (Low p) \<and>
         Selling_Price res = Close (last data) \<and>
         Profit res =
           np_sub (np_mul (Shares_Bought res) (Selling_Price res)) (total_budget * split_pct) \<and>
         Profit_Percentage res = np_mul (np_div (Profit res) (total_budget * split_pct)) 100 \<and>
         (Low p \<noteq> 0 \<longrightarrow>
            Shares_Bought res = Finite (total_budget * split_pct / Low p) \<and>
            Profit res =
              Finite (total_budget * split_pct / Low p * Close (last data)
                      - total_budget * split_pct))"
    using f by (simp add: lump_sum_def Let_def)
next
  show "lump_sum 100 1 (ymd 2024 3 1)
     [\<lparr>Date = at_time (ymd 2024 3 1) 0, Low = 90, Close = 95\<rparr>,
      \<lparr>Date = at_time (ymd 2024 6 1) 0, Low = 100, Close = 110\<rparr>] =
     Inr \<lparr>Shares_Bought = Finite (100 / 90), Purchase_Price = 90, Selling_Price = 110,
          Profit = Finite (100 / 90 * 110 - 100),
          Profit_Percentage = Finite ((100 / 90 * 110 - 100) / 100 * 100)\<rparr>"
    by (simp add: lump_sum_def ymd_def at_time_def strftime_Ymd_def Let_def)
next
  show "\<bar>(100 / 90 * 110 - 100) - 2222 / 100\<bar> < (1 / 100 :: rat)"
    by simp
qed

text \<open>
  The same at a file whose timestamps carry a time of day, with the budget of 900 split
  over sixteen stocks.
\<close>

theorem lump_sum_formulas_witness:
  "\<lparr>Date = at_time (ymd 2024 3 1) 18000, Low = 180, Close = 181\<rparr>
     \<in> set [\<lparr>Date = at_time (ymd 2024 2 29) 18000, Low = 170, Close = 172\<rparr>,
            \<lparr>Date = at_time (ymd 2024 3 1) 18000, Low = 180, Close = 181\<rparr>,
            \<lparr>Date = at_time (ymd 2024 3 4) 18000, Low = 190, Close = 225\<rparr>] \<and>
   strftime_Ymd (Date \<lparr>Date = at_time (ymd 2024 3 1) 18000, Low = 180, Close = 181\<rparr>)
     = ymd 2024 3 1 \<and>
   (\<exists>res. lump_sum 900 (1 / 16) (ymd 2024 3 1)
            [\<lparr>Date = at_time (ymd 2024 2 29) 18000, Low = 170, Close = 172\<rparr>,
             \<lparr>Date = at_time (ymd 2024 3 1) 18000, Low = 180, Close = 181\<rparr>,
             \<lparr>Date = at_time (ymd 2024 3 4) 18000, Low = 190, Close = 225\<rparr>] = Inr res \<and>
          Shares_Bought res = Finite (5 / 16) \<and> Selling_Price res = 225 \<and>
          Profit res = Finite (225 / 16))"
  using lump_sum_formulas
    [of "\<lparr>Date = at_time (ymd 2024 3 1) 18000, Low = 180, Close = 181\<rparr>"
        "[\<lparr>Date = at_time (ymd 2024 2 29) 18000, Low = 170, Close = 172\<rparr>,
          \<lparr>Date = at_time (ymd 2024 3 1) 18000, Low = 180, Close = 181\<rparr>,
          \<lparr>Date = at_time (ymd 2024 3 4) 18000, Low = 190, Close = 225\<rparr>]"
        "ymd 2024 3 1" 900 "1 / 16"]
  by (auto simp: ymd_def at_time_def strftime_Ymd_def)

text \<open>
  Claim C2. The claim says that the lump-sum script sells at the close of the row with the
  greatest date. \<^verbatim>\<open>main.py\<close> does not sort the rows (\<^verbatim>\<open>test.py\<close> does, on its line 45)
  and takes \<^verbatim>\<open>data.iloc[-1]\<close>, the last row of the file. On a file that lists the newer
  row first the selling price is the close of the older row, 95, and not the close 110
  of the row with the greatest date.
\<close>

theorem main_sells_at_last_file_row:
  "lump_sum 100 1 (ymd 2024 3 1)
     [\<lparr>Date = at_time (ymd 2024 6 1) 0, Low = 100, Close = 110\<rparr>,
      \<lparr>Date = at_time (ymd 2024 3 1) 0, Low = 90, Close = 95\<rparr>] =
     Inr \<lparr>Shares_Bought = Finite (10 / 9), Purchase_Price = 90, Selling_Price = 95,
          Profit = Finite (50 / 9), Profit_Percentage = Finite (50 / 9)\<rparr> \<and>
   Close (last (sort_values
     [\<lparr>Date = at_time (ymd 2024 6 1) 0, Low = 100, Close = 110\<rparr>,
      \<lparr>Date = at_time (ymd 2024 3 1) 0, Low = 90, Close = 95\<rparr>])) = 110"
  by (simp add: lump_sum_def ymd_def at_time_def strftime_Ymd_def Let_def sort_values_def)

subsection \<open>The empty basket\<close>

text \<open>
  Claim C5, as stated: an empty basket fails with \<open>EmptyBasketError\<close> and not with a
  division by zero. The split of an empty basket is Python's \<open>ZeroDivisionError\<close>.
\<close>

theorem empty_basket_counterexample:
  "split_percentage [] = Inl ZeroDivisionError \<and> split_percentage [] \<noteq> Inl EmptyBasketError"
  by (simp add: split_percentage_def)

text \<open>
  Claim C5, amended. With an empty basket the division \<^verbatim>\<open>1 / len(target_files)\<close> is not
  guarded: it raises \<open>ZeroDivisionError\<close>, and both scripts end with it, whatever the
  data directory, the dates and the budget are.
\<close>

theorem empty_basket_unguarded:
  "split_percentage [] = Inl ZeroDivisionError \<and>
   main_py data_dir [] purchase_date total_budget = Inl ZeroDivisionError \<and>
   test_py pandas data_dir [] start_investment_date monthly_budget = Inl ZeroDivisionError"
  by (simp add: split_percentage_def main_py_def test_py_def)

subsection \<open>The monthly dates\<close>

lemma generate_range_set:
  "is_on_offset cur \<Longrightarrow>
   set (generate_range cur stop) =
     {t. is_on_offset t \<and> time_of t = time_of cur \<and> cur \<le> t \<and> t \<le> stop}"
proof (induction cur stop rule: generate_range.induct)
  case (1 cur stop)
  obtain m d tod where cur: "cur = (m, d, tod)"
    by (cases cur) auto
  with "1.prems" have d: "d = 0"
    by (simp add: is_on_offset_def day_of_def)
  show ?case
  proof (cases "cur \<le> stop")
    case True
    have on: "is_on_offset (month_begin cur)"
      by (simp add: is_on_offset_def month_begin_def day_of_def)
    have "set (generate_range cur stop) = insert cur (set (generate_range (month_begin cur) stop))"
      using True by (subst generate_range.simps) simp
    also have "\<dots> = insert cur {t. is_on_offset t \<and> time_of t = time_of (month_begin cur)
                               \<and> month_begin cur \<le> t \<and> t \<le> stop}"
      using "1.IH"[OF True on] by simp
    also have "\<dots> = {t. is_on_offset t \<and> time_of t = time_of cur \<and> cur \<le> t \<and> t \<le> stop}"
      using True "1.prems"
      by (auto simp: cur d is_on_offset_def month_begin_def day_of_def time_of_def month_of_def)
    finally show ?thesis .
  next
    case False
    then have "set (generate_range cur stop) = {}"
      by (subst generate_range.simps) simp
    moreover have "{t. is_on_offset t \<and> time_of t = time_of cur \<and> cur \<le> t \<and> t \<le> stop} = {}"
      using False by auto
    ultimately show ?thesis by simp
  qed
qed



lemma rollforward_on_offset:
  "is_on_offset (rollforward ts)"
  by (simp add: rollforward_def is_on_offset_def month_begin_def day_of_def)

lemma time_of_rollforward:
  "time_of (rollforward ts) = time_of ts"
  by (simp add: rollforward_def month_begin_def time_of_def)

lemma rollforward_le_iff:
  "is_on_offset t \<Longrightarrow> time_of t = time_of ts \<Longrightarrow> rollforward ts \<le> t \<longleftrightarrow> ts \<le> t"
  by (cases ts; cases t)
     (auto simp: rollforward_def is_on_offset_def month_begin_def day_of_def time_of_def
        month_of_def)

lemma adjusted_end_le:
  "adjusted_end pandas start stop \<le> stop"
  by (cases stop) (simp add: adjusted_end_def rollback_def month_of_def time_of_def)



lemma date_range_MS_set:
  "set (date_range_MS pandas start stop) =
     {t. is_on_offset t \<and> time_of t = time_of start \<and> start \<le> t \<and>
         t \<le> adjusted_end pandas start stop}"
  unfolding date_range_MS_def
  by (subst generate_range_set[OF rollforward_on_offset])
     (auto simp: time_of_rollforward rollforward_le_iff)

lemma date_range_MS_bounds:
  "t \<in> set (date_range_MS pandas start stop) \<Longrightarrow>
   is_on_offset t \<and> time_of t = time_of start \<and> start \<le> t \<and> t \<le> stop"
  using adjusted_end_le[of pandas start stop] by (auto simp: date_range_MS_set)

subsection \<open>Resolving a monthly date to a row\<close>

lemma sorted_sort_values:
  "sorted (map Date (sort_values parsed))"
  by (simp add: sort_values_def)

lemma sorted_restrict:
  "sorted (map Date xs) \<Longrightarrow> sorted (map Date (restrict s xs))"
  by (simp add: restrict_def sorted_filter)






lemma drop_last_singleton:
  "xs \<noteq> [] \<Longrightarrow> drop (length xs - 1) xs = [last xs]"
  by (cases xs rule: rev_cases) simp_all


lemma available_row_hit:
  "filter (\<lambda>r. Date r \<le> d) xs \<noteq> [] \<Longrightarrow>
   available_row xs d = [last (filter (\<lambda>r. Date r \<le> d) xs)]"
  unfolding available_row_def Let_def by (rule drop_last_singleton)


lemma monthly_date_resolves:
  assumes sorted: "sorted (map Date data)" and ne: "data \<noteq> []"
    and d: "d \<in> set (monthly_dates pandas data)"
  shows "filter (\<lambda>r. Date r \<le> d) data \<noteq> []"
proof -
  from d have "start_date data \<le> d"
    using date_range_MS_bounds[of d pandas "start_date data" "end_date data"]
    by (simp add: monthly_dates_def)
  then have "Date (hd data) \<le> d"
    by (simp add: start_date_def)
  moreover have "hd data \<in> set data"
    using ne by simp
  ultimately show ?thesis
    by (auto simp: filter_empty_conv)
qed







subsection \<open>The runs over the dates and over the basket\<close>

lemma foldl_invest:
  assumes "\<forall>d\<in>set ds. available_row data d \<noteq> []"
  shows "\<exists>total_shares history'.
           foldl (invest data monthly_budget split_pct) (shares, invested, history) ds
             = (total_shares, invested + of_nat (length ds) * (monthly_budget * split_pct),
                history @ history') \<and>
           map Date' history' = ds \<and>
           (\<forall>e\<in>set history'.
              Price e = Low (hd (available_row data (Date' e))) \<and>
              Shares_Bought' e = np_div (Finite (monthly_budget * split_pct)) (Price e)) \<and>
           (ds = [] \<longrightarrow> total_shares = shares)"
  using assms
proof (induction ds arbitrary: shares invested history)
  case Nil
  then show ?case by simp
next
  case (Cons d ds)
  then obtain r rs where row: "available_row data d = r # rs"
    by (cases "available_row data d") auto
  let ?e = "\<lparr>Date' = d, Shares_Bought' = np_div (Finite (monthly_budget * split_pct)) (Low r),
             Price = Low r\<rparr>"
  have step: "invest data monthly_budget split_pct (shares, invested, history) d
        = (np_add shares (np_div (Finite (monthly_budget * split_pct)) (Low r)),
           invested + monthly_budget * split_pct, history @ [?e])"
    by (simp add: invest_def row Let_def)
  from Cons.prems have rest: "\<forall>d\<in>set ds. available_row data d \<noteq> []"
    by simp
  from Cons.IH[OF rest, of "np_add shares (np_div (Finite (monthly_budget * split_pct)) (Low r))"
      "invested + monthly_budget * split_pct" "history @ [?e]"]
  obtain total_shares history' where
    run: "foldl (invest data monthly_budget split_pct)
            (np_add shares (np_div (Finite (monthly_budget * split_pct)) (Low r)),
             invested + monthly_budget * split_pct, history @ [?e]) ds
          = (total_shares,
             invested + monthly_budget * split_pct
               + of_nat (length ds) * (monthly_budget * split_pct),
             (history @ [?e]) @ history')"
    and dates: "map Date' history' = ds"
    and events: "\<forall>e\<in>set history'.
              Price e = Low (hd (available_row data (Date' e))) \<and>
              Shares_Bought' e = np_div (Finite (monthly_budget * split_pct)) (Price e)"
    by blast
  have total: "foldl (invest data monthly_budget split_pct) (shares, invested, history) (d # ds)
        = (total_shares,
           invested + of_nat (length (d # ds)) * (monthly_budget * split_pct),
           history @ (?e # history'))"
    using run by (simp add: step algebra_simps)
  have dates': "map Date' (?e # history') = d # ds"
    using dates by simp
  have events': "\<forall>e\<in>set (?e # history').
              Price e = Low (hd (available_row data (Date' e))) \<and>
              Shares_Bought' e = np_div (Finite (monthly_budget * split_pct)) (Price e)"
    using events by (simp add: row)
  have none: "d # ds = [] \<longrightarrow> total_shares = shares"
    by simp
  show ?case
  proof (intro exI conjI)
    show "foldl (invest data monthly_budget split_pct) (shares, invested, history) (d # ds)
        = (total_shares,
           invested + of_nat (length (d # ds)) * (monthly_budget * split_pct),
           history @ (?e # history'))"
      by (rule total)
    show "map Date' (?e # history') = d # ds"
      by (rule dates')
    show "\<forall>e\<in>set (?e # history').
              Price e = Low (hd (available_row data (Date' e))) \<and>
              Shares_Bought' e = np_div (Finite (monthly_budget * split_pct)) (Price e)"
      by (rule events')
    show "d # ds = [] \<longrightarrow> total_shares = shares"
      by (rule none)
  qed
qed

lemma results_main_lookup:
  "map_of (foldl (\<lambda>results stock_name.
              case process_main dir total_budget split_pct purchase_date stock_name of
                Inl _ \<Rightarrow> results
              | Inr r \<Rightarrow> AList.update stock_name r results) acc target_files) t =
     (if t \<in> set target_files
      then (case process_main dir total_budget split_pct purchase_date t of
              Inl _ \<Rightarrow> map_of acc t | Inr r \<Rightarrow> Some r)
      else map_of acc t)"
  by (induction target_files arbitrary: acc) (auto simp: update_conv' split: sum.splits)

lemma results_test_lookup:
  "map_of (foldl (\<lambda>results stock_name.
              case process_test pandas dir monthly_budget split_pct start_investment_date stock_name of
                Inl _ \<Rightarrow> results
              | Inr (r, history) \<Rightarrow> AList.update stock_name r results) acc target_files) t =
     (if t \<in> set target_files
      then (case process_test pandas dir monthly_budget split_pct start_investment_date t of
              Inl _ \<Rightarrow> map_of acc t | Inr (r, history) \<Rightarrow> Some r)
      else map_of acc t)"
  by (induction target_files arbitrary: acc) (auto simp: update_conv' split: sum.splits)

lemma monthly_run:
  assumes data: "data = restrict start_investment_date (sort_values parsed)"
    and ne: "data \<noteq> []"
  shows "\<exists>total_shares history.
           monthly pandas monthly_budget split_pct start_investment_date parsed =
             Inr (\<lparr>Total_Shares = total_shares,
                   Total_Investment =
                     of_nat (length (monthly_dates pandas data)) * (monthly_budget * split_pct),
                   Final_Price = Close (last data),
                   Profit' = np_sub (np_mul total_shares (Close (last data)))
                     (of_nat (length (monthly_dates pandas data)) * (monthly_budget * split_pct)),
                   Profit_Percentage' =
                     (if 0 < of_nat (length (monthly_dates pandas data)) * (monthly_budget * split_pct)
                      then np_mul (np_div (np_sub (np_mul total_shares (Close (last data)))
                             (of_nat (length (monthly_dates pandas data)) * (monthly_budget * split_pct)))
                             (of_nat (length (monthly_dates pandas data)) * (monthly_budget * split_pct)))
                             100
                      else Finite 0)\<rparr>, history) \<and>
           map Date' history = monthly_dates pandas data \<and>
           (\<forall>e\<in>set history.
              Price e = Low (hd (available_row data (Date' e))) \<and>
              Shares_Bought' e = np_div (Finite (monthly_budget * split_pct)) (Price e)) \<and>
           (monthly_dates pandas data = [] \<longrightarrow> total_shares = Finite 0)"
proof -
  have sorted: "sorted (map Date data)"
    unfolding data by (rule sorted_restrict[OF sorted_sort_values])
  have "\<forall>d\<in>set (monthly_dates pandas data). available_row data d \<noteq> []"
  proof
    fix d assume "d \<in> set (monthly_dates pandas data)"
    with sorted ne have "filter (\<lambda>r. Date r \<le> d) data \<noteq> []"
      by (rule monthly_date_resolves)
    then show "available_row data d \<noteq> []"
      by (simp add: available_row_hit)
  qed
  from foldl_invest[OF this, of monthly_budget split_pct "Finite 0" 0 "[]"]
  obtain total_shares history where
    run: "foldl (invest data monthly_budget split_pct) (Finite 0, 0, []) (monthly_dates pandas data)
          = (total_shares, of_nat (length (monthly_dates pandas data)) * (monthly_budget * split_pct),
             history)"
    and rest: "map Date' history = monthly_dates pandas data"
      "\<forall>e\<in>set history.
              Price e = Low (hd (available_row data (Date' e))) \<and>
              Shares_Bought' e = np_div (Finite (monthly_budget * split_pct)) (Price e)"
      "monthly_dates pandas data = [] \<longrightarrow> total_shares = Finite 0"
    by auto
  have "monthly pandas monthly_budget split_pct start_investment_date parsed =
             Inr (\<lparr>Total_Shares = total_shares,
                   Total_Investment =
                     of_nat (length (monthly_dates pandas data)) * (monthly_budget * split_pct),
                   Final_Price = Close (last data),
                   Profit' = np_sub (np_mul total_shares (Close (last data)))
                     (of_nat (length (monthly_dates pandas data)) * (monthly_budget * split_pct)),
                   Profit_Percentage' =
                     (if 0 < of_nat (length (monthly_dates pandas data)) * (monthly_budget * split_pct)
                      then np_mul (np_div (np_sub (np_mul total_shares (Close (last data)))
                             (of_nat (length (monthly_dates pandas data)) * (monthly_budget * split_pct)))
                             (of_nat (length (monthly_dates pandas data)) * (monthly_budget * split_pct)))
                             100
                      else Finite 0)\<rparr>, history)"
    using ne run unfolding monthly_def data[symmetric] Let_def by simp
  with rest show ?thesis by blast
qed

lemma process_test_found:
  "map_of dir (stock_name @ ''.csv'') = Some f \<Longrightarrow> required_columns f \<Longrightarrow>
   process_test pandas dir monthly_budget split_pct start_investment_date stock_name =
     monthly pandas monthly_budget split_pct start_investment_date (dropna (rows f))"
  by (simp add: process_test_def)

text \<open>
  Claim C10. On restricted rows that are not empty every monthly date finds a row, so the
  branch of line 68 that skips a date is never taken: the monthly script returns a
  result, it records one purchase for each monthly date, in their order, and the total
  investment is the number of monthly dates times the monthly allocation. With no
  monthly date the total investment, the profit and the percentage are 0, and the stock
  is stored in the results of the run all the same.
\<close>

theorem every_monthly_date_is_bought:
  "data = restrict start_investment_date (sort_values parsed) \<and> data \<noteq> [] \<longrightarrow>
     (\<forall>d\<in>set (monthly_dates pandas data). available_row data d \<noteq> []) \<and>
     (\<exists>r history.
        monthly pandas monthly_budget split_pct start_investment_date parsed = Inr (r, history) \<and>
        map Date' history = monthly_dates pandas data \<and>
        length history = length (monthly_dates pandas data) \<and>
        Total_Investment r = of_nat (length (monthly_dates pandas data)) * (monthly_budget * split_pct) \<and>
        (monthly_dates pandas data = [] \<longrightarrow>
           Total_Investment r = 0 \<and> Profit' r = Finite 0 \<and> Profit_Percentage' r = Finite 0) \<and>
        (stock_name \<in> set target_files \<and> map_of dir (stock_name @ ''.csv'') = Some f \<and>
         required_columns f \<and> dropna (rows f) = parsed \<longrightarrow>
           map_of (results_test pandas dir monthly_budget split_pct start_investment_date target_files)
             stock_name = Some r))"
proof (intro impI, elim conjE)
  assume data: "data = restrict start_investment_date (sort_values parsed)"
    and ne: "data \<noteq> []"
  have sorted: "sorted (map Date data)"
    unfolding data by (rule sorted_restrict[OF sorted_sort_values])
  have resolves: "\<forall>d\<in>set (monthly_dates pandas data). available_row data d \<noteq> []"
  proof
    fix d assume "d \<in> set (monthly_dates pandas data)"
    with sorted ne have "filter (\<lambda>r. Date r \<le> d) data \<noteq> []"
      by (rule monthly_date_resolves)
    then show "available_row data d \<noteq> []"
      by (simp add: available_row_hit)
  qed
  from monthly_run[OF data ne, of pandas monthly_budget split_pct]
  obtain r history total_shares where
    run: "monthly pandas monthly_budget split_pct start_investment_date parsed = Inr (r, history)"
    and r: "r = \<lparr>Total_Shares = total_shares,
                 Total_Investment =
                   of_nat (length (monthly_dates pandas data)) * (monthly_budget * split_pct),
                 Final_Price = Close (last data),
                 Profit' = np_sub (np_mul total_shares (Close (last data)))
                   (of_nat (length (monthly_dates pandas data)) * (monthly_budget * split_pct)),
                 Profit_Percentage' =
                   (if 0 < of_nat (length (monthly_dates pandas data)) * (monthly_budget * split_pct)
                    then np_mul (np_div (np_sub (np_mul total_shares (Close (last data)))
                           (of_nat (length (monthly_dates pandas data)) * (monthly_budget * split_pct)))
                           (of_nat (length (monthly_dates pandas data)) * (monthly_budget * split_pct)))
                           100
                    else Finite 0)\<rparr>"
    and dates: "map Date' history = monthly_dates pandas data"
    and none: "monthly_dates pandas data = [] \<longrightarrow> total_shares = Finite 0"
    by blast
  have len: "length history = length (monthly_dates pandas data)"
    using dates by (metis length_map)
  have invested: "Total_Investment r
      = of_nat (length (monthly_dates pandas data)) * (monthly_budget * split_pct)"
    by (simp add: r)
  have zero: "monthly_dates pandas data = [] \<longrightarrow>
           Total_Investment r = 0 \<and> Profit' r = Finite 0 \<and> Profit_Percentage' r = Finite 0"
    using none by (simp add: r)
  have stored: "stock_name \<in> set target_files \<and> map_of dir (stock_name @ ''.csv'') = Some f \<and>
         required_columns f \<and> dropna (rows f) = parsed \<longrightarrow>
           map_of (results_test pandas dir monthly_budget split_pct start_investment_date target_files)
             stock_name = Some r"
    using run by (auto simp: results_test_def results_test_lookup process_test_found)
  show "(\<forall>d\<in>set (monthly_dates pandas data). available_row data d \<noteq> []) \<and>
     (\<exists>r history.
        monthly pandas monthly_budget split_pct start_investment_date parsed = Inr (r, history) \<and>
        map Date' history = monthly_dates pandas data \<and>
        length history = length (monthly_dates pandas data) \<and>
        Total_Investment r = of_nat (length (monthly_dates pandas data)) * (monthly_budget * split_pct) \<and>
        (monthly_dates pandas data = [] \<longrightarrow>
           Total_Investment r = 0 \<and> Profit' r = Finite 0 \<and> Profit_Percentage' r = Finite 0) \<and>
        (stock_name \<in> set target_files \<and> map_of dir (stock_name @ ''.csv'') = Some f \<and>
         required_columns f \<and> dropna (rows f) = parsed \<longrightarrow>
           map_of (results_test pandas dir monthly_budget split_pct start_investment_date target_files)
             stock_name = Some r))"
  proof (intro conjI exI)
    show "\<forall>d\<in>set (monthly_dates pandas data). available_row data d \<noteq> []" by (rule resolves)
    show "monthly pandas monthly_budget split_pct start_investment_date parsed = Inr (r, history)"
      by (rule run)
    show "map Date' history = monthly_dates pandas data" by (rule dates)
    show "length history = length (monthly_dates pandas data)" by (rule len)
    show "Total_Investment r
      = of_nat (length (monthly_dates pandas data)) * (monthly_budget * split_pct)" by (rule invested)
    show "monthly_dates pandas data = [] \<longrightarrow>
           Total_Investment r = 0 \<and> Profit' r = Finite 0 \<and> Profit_Percentage' r = Finite 0"
      by (rule zero)
    show "stock_name \<in> set target_files \<and> map_of dir (stock_name @ ''.csv'') = Some f \<and>
         required_columns f \<and> dropna (rows f) = parsed \<longrightarrow>
           map_of (results_test pandas dir monthly_budget split_pct start_investment_date target_files)
             stock_name = Some r"
      by (rule stored)
  qed
qed

text \<open>
  On the example file three monthly dates are bought with 90 each; on the quiet file no
  date is bought and the stock is stored with a profit of 0.
\<close>

theorem every_monthly_date_is_bought_witness:
  "example_data = restrict (at_time (ymd 2024 3 1) 0) (sort_values example_parsed) \<and>
   example_data \<noteq> [] \<and>
   (\<exists>r history.
      monthly Pandas_3 90 1 (at_time (ymd 2024 3 1) 0) example_parsed = Inr (r, history) \<and>
      length history = 3 \<and> Total_Investment r = 270) \<and>
   quiet_data = restrict (at_time (ymd 2024 3 1) 0) (sort_values (dropna (rows quiet_file))) \<and>
   quiet_data \<noteq> [] \<and> monthly_dates Pandas_3 quiet_data = [] \<and>
   ''AAPL'' \<in> set [''AAPL'', ''WMT''] \<and>
   map_of [(''AAPL.csv'', quiet_file)] (''AAPL'' @ ''.csv'') = Some quiet_file \<and>
   required_columns quiet_file \<and>
   (\<exists>r. map_of (results_test Pandas_3 [(''AAPL.csv'', quiet_file)] 100 (1 / 2)
                  (at_time (ymd 2024 3 1) 0) [''AAPL'', ''WMT'']) ''AAPL'' = Some r \<and>
        Total_Investment r = 0 \<and> Profit' r = Finite 0 \<and> Profit_Percentage' r = Finite 0)"
proof -
  have ne: "example_data \<noteq> []"
    by (simp add: example_data_def)
  have hyp: "example_data = restrict (at_time (ymd 2024 3 1) 0) (sort_values example_parsed) \<and>
      example_data \<noteq> []"
    using example_data_restrict ne by (rule conjI)
  from every_monthly_date_is_bought
    [where pandas = Pandas_3 and data = example_data and start_investment_date = "at_time (ymd 2024 3 1) 0"
       and parsed = example_parsed and monthly_budget = 90 and split_pct = 1] hyp
  obtain r history where
    "monthly Pandas_3 90 1 (at_time (ymd 2024 3 1) 0) example_parsed = Inr (r, history)"
    "length history = length (monthly_dates Pandas_3 example_data)"
    "Total_Investment r = of_nat (length (monthly_dates Pandas_3 example_data)) * (90 * 1)"
    by blast
  then have busy: "\<exists>r history.
      monthly Pandas_3 90 1 (at_time (ymd 2024 3 1) 0) example_parsed = Inr (r, history) \<and>
      length history = 3 \<and> Total_Investment r = 270"
    by (simp add: example_monthly_dates)
  have qne: "quiet_data \<noteq> []"
    by (simp add: quiet_data_def)
  have qhyp: "quiet_data
        = restrict (at_time (ymd 2024 3 1) 0) (sort_values (dropna (rows quiet_file))) \<and>
      quiet_data \<noteq> []"
    using quiet_data_restrict qne by (rule conjI)
  have member: "''AAPL'' \<in> set [''AAPL'', ''WMT'']"
    by simp
  have found: "map_of [(''AAPL.csv'', quiet_file)] (''AAPL'' @ ''.csv'') = Some quiet_file"
    by simp
  have cols: "required_columns quiet_file"
    by (simp add: required_columns_def quiet_file_def)
  from every_monthly_date_is_bought
    [where pandas = Pandas_3 and data = quiet_data and start_investment_date = "at_time (ymd 2024 3 1) 0"
       and parsed = "dropna (rows quiet_file)" and monthly_budget = 100 and split_pct = "1 / 2"
       and stock_name = "''AAPL''" and target_files = "[''AAPL'', ''WMT'']"
       and dir = "[(''AAPL.csv'', quiet_file)]" and f = quiet_file]
    qhyp quiet_monthly_dates member found cols
  have quiet: "\<exists>r. map_of (results_test Pandas_3 [(''AAPL.csv'', quiet_file)] 100 (1 / 2)
                  (at_time (ymd 2024 3 1) 0) [''AAPL'', ''WMT'']) ''AAPL'' = Some r \<and>
        Total_Investment r = 0 \<and> Profit' r = Finite 0 \<and> Profit_Percentage' r = Finite 0"
    by blast
  from hyp busy qhyp quiet_monthly_dates member found cols quiet show ?thesis
    by (intro conjI) (simp_all only: simp_thms)
qed

subsection \<open>Prices that are not positive\<close>

lemma monthly_not_invalid:
  "monthly pandas monthly_budget split_pct start_investment_date parsed \<noteq> Inl InvalidPrice"
  by (simp add: monthly_def Let_def split: prod.splits)

lemma lump_sum_not_invalid:
  "lump_sum total_budget split_pct purchase_date data \<noteq> Inl InvalidPrice"
  by (simp add: lump_sum_def Let_def split: list.splits)

lemma foldl_invest_exact:
  assumes "\<forall>d\<in>set ds. available_row data d \<noteq> []"
  shows "foldl (invest data monthly_budget split_pct) (shares, invested, history) ds =
     (foldl np_add shares
        (map (\<lambda>d. np_div (Finite (monthly_budget * split_pct))
                    (Low (hd (available_row data d)))) ds),
      invested + of_nat (length ds) * (monthly_budget * split_pct),
      history @
        map (\<lambda>d. \<lparr>Date' = d,
                   Shares_Bought' = np_div (Finite (monthly_budget * split_pct))
                     (Low (hd (available_row data d))),
                   Price = Low (hd (available_row data d))\<rparr>) ds)"
  using assms
proof (induction ds arbitrary: shares invested history)
  case Nil
  show ?case by simp
next
  case (Cons d ds)
  then obtain r rs where row: "available_row data d = r # rs"
    by (cases "available_row data d") auto
  have step: "invest data monthly_budget split_pct (shares, invested, history) d
        = (np_add shares (np_div (Finite (monthly_budget * split_pct)) (Low r)),
           invested + monthly_budget * split_pct,
           history @ [\<lparr>Date' = d,
                        Shares_Bought' = np_div (Finite (monthly_budget * split_pct)) (Low r),
                        Price = Low r\<rparr>])"
    by (simp add: invest_def row Let_def)
  from Cons.prems have rest: "\<forall>d\<in>set ds. available_row data d \<noteq> []"
    by simp
  show ?case
    by (simp add: step Cons.IH[OF rest] row algebra_simps)
qed

lemma monthly_exact:
  assumes data: "data = restrict start_investment_date (sort_values parsed)"
    and ne: "data \<noteq> []"
  shows "\<exists>r.
     monthly pandas monthly_budget split_pct start_investment_date parsed =
       Inr (r, map (\<lambda>d. \<lparr>Date' = d,
                          Shares_Bought' = np_div (Finite (monthly_budget * split_pct))
                            (Low (hd (available_row data d))),
                          Price = Low (hd (available_row data d))\<rparr>)
                 (monthly_dates pandas data)) \<and>
     Total_Shares r =
       np_sum (map (\<lambda>d. np_div (Finite (monthly_budget * split_pct))
                          (Low (hd (available_row data d))))
                 (monthly_dates pandas data))"
proof -
  have sorted: "sorted (map Date data)"
    unfolding data by (rule sorted_restrict[OF sorted_sort_values])
  have "\<forall>d\<in>set (monthly_dates pandas data). available_row data d \<noteq> []"
  proof
    fix d assume "d \<in> set (monthly_dates pandas data)"
    with sorted ne have "filter (\<lambda>r. Date r \<le> d) data \<noteq> []"
      by (rule monthly_date_resolves)
    then show "available_row data d \<noteq> []"
      by (simp add: available_row_hit)
  qed
  from foldl_invest_exact[OF this, of monthly_budget split_pct "Finite 0" 0 "[]"] ne
  show ?thesis
    unfolding monthly_def data[symmetric] Let_def by (simp add: np_sum_def)
qed

text \<open>
  Claim C6, as stated: a low price that is zero or negative ends the simulation of the
  stock with an invalid-price error. With a low of -10 both scripts divide the allocation
  of 100 by it and store a result of -10 shares.
\<close>

theorem nonpositive_price_counterexample:
  "lump_sum 100 1 (ymd 2024 3 1) [\<lparr>Date = at_time (ymd 2024 3 1) 0, Low = - 10, Close = 95\<rparr>] =
     Inr \<lparr>Shares_Bought = Finite (- 10), Purchase_Price = - 10, Selling_Price = 95,
          Profit = Finite (- 1050), Profit_Percentage = Finite (- 1050)\<rparr> \<and>
   monthly Pandas_3 100 1 (at_time (ymd 2024 3 1) 0)
       [\<lparr>Date = at_time (ymd 2024 3 1) 0, Low = - 10, Close = 95\<rparr>] =
     Inr (\<lparr>Total_Shares = Finite (- 10), Total_Investment = 100, Final_Price = 95,
           Profit' = Finite (- 1050), Profit_Percentage' = Finite (- 1050)\<rparr>,
          [\<lparr>Date' = at_time (ymd 2024 3 1) 0, Shares_Bought' = Finite (- 10), Price = - 10\<rparr>]) \<and>
   monthly Pandas_2 100 1 (at_time (ymd 2024 3 1) 0)
       [\<lparr>Date = at_time (ymd 2024 3 1) 0, Low = - 10, Close = 95\<rparr>] =
     Inr (\<lparr>Total_Shares = Finite (- 10), Total_Investment = 100, Final_Price = 95,
           Profit' = Finite (- 1050), Profit_Percentage' = Finite (- 1050)\<rparr>,
          [\<lparr>Date' = at_time (ymd 2024 3 1) 0, Shares_Bought' = Finite (- 10), Price = - 10\<rparr>])"
  by (simp add: lump_sum_def monthly_def Let_def sort_values_def restrict_def range_defs
      ts_defs invest_def available_row_def)

text \<open>
  Claim C6, amended. Neither script rejects a price: no simulation ends with the
  invalid-price marker. In the lump-sum script a purchase row with a low that is zero or
  negative gives a result whose shares are the allocation divided by that low: the
  quotient of the rationals for a negative low, and numpy's non-finite quotient for a
  zero low. The monthly script, on restricted rows that are not empty, records one
  purchase for every monthly date; the price of the purchase is the low of the row found
  for that date, whatever its sign, and its shares are the allocation divided by that
  low, in the same way; the total of the shares of the result is the sum of the shares
  of the recorded purchases.
\<close>

theorem nonpositive_price_is_divided:
  "lump_sum total_budget split_pct purchase_date rows_main \<noteq> Inl InvalidPrice \<and>
   monthly pandas monthly_budget split_pct' start_investment_date parsed \<noteq> Inl InvalidPrice \<and>
   (filter (\<lambda>r. strftime_Ymd (Date r) = purchase_date) rows_main = p # ps \<and> Low p \<le> 0 \<longrightarrow>
      (\<exists>res. lump_sum total_budget split_pct purchase_date rows_main = Inr res \<and>
         Purchase_Price res = Low p \<and>
         Shares_Bought res = np_div (Finite (total_budget * split_pct)) (Low p) \<and>
         (Low p < 0 \<longrightarrow> Shares_Bought res = Finite (total_budget * split_pct / Low p)) \<and>
         (Low p = 0 \<longrightarrow> Shares_Bought res = NonFinite))) \<and>
   (data = restrict start_investment_date (sort_values parsed) \<and> data \<noteq> [] \<longrightarrow>
      (\<exists>r history.
         monthly pandas monthly_budget split_pct' start_investment_date parsed = Inr (r, history) \<and>
         map Date' history = monthly_dates pandas data \<and>
         Total_Shares r = np_sum (map Shares_Bought' history) \<and>
         (\<forall>e\<in>set history.
            \<exists>q. available_row data (Date' e) = [q] \<and> Price e = Low q \<and>
              Shares_Bought' e = np_div (Finite (monthly_budget * split_pct')) (Low q) \<and>
              (Low q < 0 \<longrightarrow>
                 Shares_Bought' e = Finite (monthly_budget * split_pct' / Low q)) \<and>
              (Low q = 0 \<longrightarrow> Shares_Bought' e = NonFinite))))"
proof (intro conjI impI)
  show "lump_sum total_budget split_pct purchase_date rows_main \<noteq> Inl InvalidPrice"
    by (rule lump_sum_not_invalid)
  show "monthly pandas monthly_budget split_pct' start_investment_date parsed \<noteq> Inl InvalidPrice"
    by (rule monthly_not_invalid)
next
  assume "filter (\<lambda>r. strftime_Ymd (Date r) = purchase_date) rows_main = p # ps \<and> Low p \<le> 0"
  then show "\<exists>res. lump_sum total_budget split_pct purchase_date rows_main = Inr res \<and>
         Purchase_Price res = Low p \<and>
         Shares_Bought res = np_div (Finite (total_budget * split_pct)) (Low p) \<and>
         (Low p < 0 \<longrightarrow> Shares_Bought res = Finite (total_budget * split_pct / Low p)) \<and>
         (Low p = 0 \<longrightarrow> Shares_Bought res = NonFinite)"
    by (simp add: lump_sum_def Let_def)
next
  assume both: "data = restrict start_investment_date (sort_values parsed) \<and> data \<noteq> []"
  then have data: "data = restrict start_investment_date (sort_values parsed)"
    and ne: "data \<noteq> []"
    by blast+
  let ?share = "\<lambda>d. np_div (Finite (monthly_budget * split_pct'))
                      (Low (hd (available_row data d)))"
  let ?event = "\<lambda>d. \<lparr>Date' = d, Shares_Bought' = ?share d,
                      Price = Low (hd (available_row data d))\<rparr>"
  let ?history = "map ?event (monthly_dates pandas data)"
  have sorted: "sorted (map Date data)"
    unfolding data by (rule sorted_restrict[OF sorted_sort_values])
  from monthly_exact[OF data ne, of pandas monthly_budget split_pct']
  obtain r where
    run: "monthly pandas monthly_budget split_pct' start_investment_date parsed
          = Inr (r, ?history)"
    and total: "Total_Shares r = np_sum (map ?share (monthly_dates pandas data))"
    by blast
  have dates: "map Date' ?history = monthly_dates pandas data"
    by (simp add: comp_def)
  have shares: "Total_Shares r = np_sum (map Shares_Bought' ?history)"
    by (simp add: total comp_def)
  have events: "\<forall>e\<in>set ?history.
            \<exists>q. available_row data (Date' e) = [q] \<and> Price e = Low q \<and>
              Shares_Bought' e = np_div (Finite (monthly_budget * split_pct')) (Low q) \<and>
              (Low q < 0 \<longrightarrow>
                 Shares_Bought' e = Finite (monthly_budget * split_pct' / Low q)) \<and>
              (Low q = 0 \<longrightarrow> Shares_Bought' e = NonFinite)"
  proof
    fix e assume "e \<in> set ?history"
    then obtain d where d: "d \<in> set (monthly_dates pandas data)" and e: "e = ?event d"
      by auto
    from sorted ne d have "filter (\<lambda>r. Date r \<le> d) data \<noteq> []"
      by (rule monthly_date_resolves)
    then have row: "available_row data d = [last (filter (\<lambda>r. Date r \<le> d) data)]"
      by (rule available_row_hit)
    show "\<exists>q. available_row data (Date' e) = [q] \<and> Price e = Low q \<and>
              Shares_Bought' e = np_div (Finite (monthly_budget * split_pct')) (Low q) \<and>
              (Low q < 0 \<longrightarrow>
                 Shares_Bought' e = Finite (monthly_budget * split_pct' / Low q)) \<and>
              (Low q = 0 \<longrightarrow> Shares_Bought' e = NonFinite)"
      by (rule exI[of _ "last (filter (\<lambda>r. Date r \<le> d) data)"]) (simp add: e row)
  qed
  show "\<exists>r history.
         monthly pandas monthly_budget split_pct' start_investment_date parsed = Inr (r, history) \<and>
         map Date' history = monthly_dates pandas data \<and>
         Total_Shares r = np_sum (map Shares_Bought' history) \<and>
         (\<forall>e\<in>set history.
            \<exists>q. available_row data (Date' e) = [q] \<and> Price e = Low q \<and>
              Shares_Bought' e = np_div (Finite (monthly_budget * split_pct')) (Low q) \<and>
              (Low q < 0 \<longrightarrow>
                 Shares_Bought' e = Finite (monthly_budget * split_pct' / Low q)) \<and>
              (Low q = 0 \<longrightarrow> Shares_Bought' e = NonFinite))"
  proof (intro exI conjI)
    show "monthly pandas monthly_budget split_pct' start_investment_date parsed
          = Inr (r, ?history)" by (rule run)
    show "map Date' ?history = monthly_dates pandas data" by (rule dates)
    show "Total_Shares r = np_sum (map Shares_Bought' ?history)" by (rule shares)
    show "\<forall>e\<in>set ?history.
            \<exists>q. available_row data (Date' e) = [q] \<and> Price e = Low q \<and>
              Shares_Bought' e = np_div (Finite (monthly_budget * split_pct')) (Low q) \<and>
              (Low q < 0 \<longrightarrow>
                 Shares_Bought' e = Finite (monthly_budget * split_pct' / Low q)) \<and>
              (Low q = 0 \<longrightarrow> Shares_Bought' e = NonFinite)" by (rule events)
  qed
qed

text \<open>
  A low of -10 gives -10 shares for an allocation of 100, in the lump-sum script and as
  the one purchase that the monthly script records; a low of 0 gives no number.
\<close>

theorem nonpositive_price_is_divided_witness:
  "filter (\<lambda>r. strftime_Ymd (Date r) = ymd 2024 3 1)
       [\<lparr>Date = at_time (ymd 2024 3 1) 0, Low = - 10, Close = 95\<rparr>]
     = [\<lparr>Date = at_time (ymd 2024 3 1) 0, Low = - 10, Close = 95\<rparr>] \<and>
   Low \<lparr>Date = at_time (ymd 2024 3 1) 0, Low = - 10, Close = 95\<rparr> < 0 \<and>
   [\<lparr>Date = at_time (ymd 2024 3 1) 0, Low = - 10, Close = 95\<rparr>] =
     restrict (at_time (ymd 2024 3 1) 0)
       (sort_values [\<lparr>Date = at_time (ymd 2024 3 1) 0, Low = - 10, Close = 95\<rparr>]) \<and>
   (\<exists>res. lump_sum 100 1 (ymd 2024 3 1)
             [\<lparr>Date = at_time (ymd 2024 3 1) 0, Low = - 10, Close = 95\<rparr>] = Inr res \<and>
          Shares_Bought res = Finite (- 10)) \<and>
   (\<exists>r history. monthly Pandas_3 100 1 (at_time (ymd 2024 3 1) 0)
             [\<lparr>Date = at_time (ymd 2024 3 1) 0, Low = - 10, Close = 95\<rparr>] = Inr (r, history) \<and>
          map Date' history = [at_time (ymd 2024 3 1) 0] \<and>
          map Price history = [- 10] \<and>
          map Shares_Bought' history = [Finite (- 10)] \<and>
          Total_Shares r = Finite (- 10)) \<and>
   filter (\<lambda>r. strftime_Ymd (Date r) = ymd 2024 3 1)
       [\<lparr>Date = at_time (ymd 2024 3 1) 0, Low = 0, Close = 95\<rparr>]
     = [\<lparr>Date = at_time (ymd 2024 3 1) 0, Low = 0, Close = 95\<rparr>] \<and>
   Low \<lparr>Date = at_time (ymd 2024 3 1) 0, Low = 0, Close = 95\<rparr> = 0 \<and>
   (\<exists>res. lump_sum 100 1 (ymd 2024 3 1)
             [\<lparr>Date = at_time (ymd 2024 3 1) 0, Low = 0, Close = 95\<rparr>] = Inr res \<and>
          Shares_Bought res = NonFinite)"
proof -
  let ?n = "\<lparr>Date = at_time (ymd 2024 3 1) 0, Low = - 10, Close = 95\<rparr>"
  let ?z = "\<lparr>Date = at_time (ymd 2024 3 1) 0, Low = 0, Close = 95\<rparr>"
  let ?d = "at_time (ymd 2024 3 1) 0"
  have fn: "filter (\<lambda>r. strftime_Ymd (Date r) = ymd 2024 3 1) [?n] = [?n]"
    by (simp add: ts_defs)
  have fz: "filter (\<lambda>r. strftime_Ymd (Date r) = ymd 2024 3 1) [?z] = [?z]"
    by (simp add: ts_defs)
  have ln: "Low ?n < 0" and lz: "Low ?z = 0" and le: "Low ?n \<le> 0"
    by simp_all
  have rn: "[?n] = restrict ?d (sort_values [?n])"
    by (simp add: restrict_def sort_values_def)
  have ne: "[?n] \<noteq> []"
    by simp
  have ds: "monthly_dates Pandas_3 [?n] = [?d]"
    by (simp add: range_defs ts_defs)
  have row: "available_row [?n] ?d = [?n]"
    by (simp add: available_row_def)
  from nonpositive_price_is_divided
    [where pandas = Pandas_3 and rows_main = "[?n]" and purchase_date = "ymd 2024 3 1"
       and p = ?n and ps = "[]" and total_budget = 100 and split_pct = 1
       and monthly_budget = 100 and split_pct' = 1 and start_investment_date = ?d
       and parsed = "[?n]" and data = "[?n]"]
    fn ln le rn ne
  obtain res r history where
    lump: "lump_sum 100 1 (ymd 2024 3 1) [?n] = Inr res"
      "Shares_Bought res = Finite (100 * 1 / Low ?n)"
    and run: "monthly Pandas_3 100 1 ?d [?n] = Inr (r, history)"
    and dates: "map Date' history = monthly_dates Pandas_3 [?n]"
    and total: "Total_Shares r = np_sum (map Shares_Bought' history)"
    and events: "\<forall>e\<in>set history.
            \<exists>q. available_row [?n] (Date' e) = [q] \<and> Price e = Low q \<and>
              Shares_Bought' e = np_div (Finite (100 * 1)) (Low q) \<and>
              (Low q < 0 \<longrightarrow> Shares_Bought' e = Finite (100 * 1 / Low q)) \<and>
              (Low q = 0 \<longrightarrow> Shares_Bought' e = NonFinite)"
    by blast
  have neg: "\<exists>res. lump_sum 100 1 (ymd 2024 3 1) [?n] = Inr res \<and>
          Shares_Bought res = Finite (- 10)"
    using lump by simp
  from dates[unfolded ds] obtain e where one: "history = [e]" and date: "Date' e = ?d"
    by (cases history) auto
  from events one date row have bought: "Price e = - 10" "Shares_Bought' e = Finite (- 10)"
    by auto
  have month: "\<exists>r history. monthly Pandas_3 100 1 ?d [?n] = Inr (r, history) \<and>
          map Date' history = [?d] \<and> map Price history = [- 10] \<and>
          map Shares_Bought' history = [Finite (- 10)] \<and> Total_Shares r = Finite (- 10)"
    using run total one date bought by (simp add: np_sum_def)
  from nonpositive_price_is_divided
    [where pandas = Pandas_3 and rows_main = "[?z]" and purchase_date = "ymd 2024 3 1"
       and p = ?z and ps = "[]" and total_budget = 100 and split_pct = 1
       and monthly_budget = 100 and split_pct' = 1 and start_investment_date = ?d
       and parsed = "[?z]" and data = "[?z]"]
    fz lz
  have zero: "\<exists>res. lump_sum 100 1 (ymd 2024 3 1) [?z] = Inr res \<and>
          Shares_Bought res = NonFinite"
    by (simp only: order_refl simp_thms) blast
  from fn ln rn neg month fz lz zero show ?thesis
    by (intro conjI)
qed

subsection \<open>The ranking\<close>

lemma mset_py_sorted_reverse:
  "mset (py_sorted_reverse key xs) = mset xs"
  by (simp add: py_sorted_reverse_def)

lemma py_sorted_reverse_descending:
  "sorted_wrt (\<lambda>a b. key b \<le> key a) (py_sorted_reverse key xs)"
proof -
  have "sorted (map key (sort_key key (rev xs)))"
    by (rule sorted_sort_key)
  then have "sorted_wrt (\<lambda>a b. key a \<le> key b) (sort_key key (rev xs))"
    by (simp add: sorted_map)
  then show ?thesis
    by (simp add: py_sorted_reverse_def sorted_wrt_rev)
qed

lemma py_sorted_reverse_stable:
  "filter (\<lambda>x. key x = k) (py_sorted_reverse key xs) = filter (\<lambda>x. key x = k) xs"
proof -
  have "filter (\<lambda>x. key x = k) (py_sorted_reverse key xs)
        = rev (filter (\<lambda>x. key x = k) (sort_key key (rev xs)))"
    by (simp add: py_sorted_reverse_def rev_filter)
  also have "\<dots> = rev (filter (\<lambda>x. key x = k) (rev xs))"
    by (simp only: sort_key_stable)
  also have "\<dots> = filter (\<lambda>x. key x = k) xs"
    by (simp add: rev_filter)
  finally show ?thesis .
qed

lemma float_key_eq_iff:
  "float_key a = float_key b \<longleftrightarrow> a = b"
  by (cases a; cases b) simp_all

lemma float_key_le_Finite:
  "a \<noteq> NonFinite \<Longrightarrow> b \<noteq> NonFinite \<Longrightarrow> float_key b \<le> float_key a \<Longrightarrow>
   \<exists>p q. a = Finite p \<and> b = Finite q \<and> q \<le> p"
  by (cases a; cases b) simp_all

lemma sorted_by_profit:
  fixes profit :: "'a \<Rightarrow> float64"
  assumes "\<forall>x\<in>set xs. profit x \<noteq> NonFinite"
  shows "sorted_wrt (\<lambda>a b. \<exists>p q. profit a = Finite p \<and> profit b = Finite q \<and> q \<le> p)
           (py_sorted_reverse (\<lambda>x. float_key (profit x)) xs)"
proof (rule sorted_wrt_mono_rel[OF _ py_sorted_reverse_descending])
  fix a b
  assume "a \<in> set (py_sorted_reverse (\<lambda>x. float_key (profit x)) xs)"
    and "b \<in> set (py_sorted_reverse (\<lambda>x. float_key (profit x)) xs)"
    and le: "float_key (profit b) \<le> float_key (profit a)"
  then have "a \<in> set xs" "b \<in> set xs"
    by (simp_all add: py_sorted_reverse_def)
  with assms have "profit a \<noteq> NonFinite" "profit b \<noteq> NonFinite"
    by blast+
  then show "\<exists>p q. profit a = Finite p \<and> profit b = Finite q \<and> q \<le> p"
    using le by (rule float_key_le_Finite)
qed

lemma stable_by_profit:
  fixes profit :: "'a \<Rightarrow> float64"
  shows "filter (\<lambda>x. profit x = k) (py_sorted_reverse (\<lambda>x. float_key (profit x)) xs)
         = filter (\<lambda>x. profit x = k) xs"
  using py_sorted_reverse_stable[of "\<lambda>x. float_key (profit x)" "float_key k" xs]
  by (simp add: float_key_eq_iff)

text \<open>
  Claim C9. In both scripts the sorted results are in the order of falling profit, results
  of equal profit keep the order they have in the dictionary, and the sorted results are
  the results of the dictionary, each once. The profits are taken to be finite: Python
  promises no order for keys that hold a \<^verbatim>\<open>nan\<close>.
\<close>

theorem ranking_descending_stable:
  "((\<forall>x\<in>set results. Profit (snd x) \<noteq> NonFinite) \<longrightarrow>
      sorted_wrt (\<lambda>a b. \<exists>p q. Profit (snd a) = Finite p \<and> Profit (snd b) = Finite q \<and> q \<le> p)
        (sorted_results_main results) \<and>
      (\<forall>k. filter (\<lambda>x. Profit (snd x) = k) (sorted_results_main results)
           = filter (\<lambda>x. Profit (snd x) = k) results) \<and>
      mset (sorted_results_main results) = mset results) \<and>
   ((\<forall>x\<in>set results'. Profit' (snd x) \<noteq> NonFinite) \<longrightarrow>
      sorted_wrt (\<lambda>a b. \<exists>p q. Profit' (snd a) = Finite p \<and> Profit' (snd b) = Finite q \<and> q \<le> p)
        (sorted_results_test results') \<and>
      (\<forall>k. filter (\<lambda>x. Profit' (snd x) = k) (sorted_results_test results')
           = filter (\<lambda>x. Profit' (snd x) = k) results') \<and>
      mset (sorted_results_test results') = mset results')"
  unfolding sorted_results_main_def sorted_results_test_def
  using sorted_by_profit[of results "\<lambda>x. Profit (snd x)"]
    sorted_by_profit[of results' "\<lambda>x. Profit' (snd x)"]
  by (simp add: stable_by_profit mset_py_sorted_reverse)

text \<open>
  On the example results the stock with the profit 5 comes first and the two stocks with
  the same profit follow in the order of the dictionary.
\<close>

theorem ranking_descending_stable_witness:
  "map (\<lambda>x. Profit (snd x)) example_results_main = [Finite 2, Finite 5, Finite 2] \<and>
   map (\<lambda>x. Profit' (snd x)) example_results_test = [Finite (- 1), Finite 2, Finite (- 1)] \<and>
   map fst (sorted_results_main example_results_main) = [''WMT'', ''AAPL'', ''MSFT''] \<and>
   map fst (sorted_results_test example_results_test) = [''WMT'', ''AAPL'', ''MSFT''] \<and>
   sorted_wrt (\<lambda>a b. \<exists>p q. Profit (snd a) = Finite p \<and> Profit (snd b) = Finite q \<and> q \<le> p)
     (sorted_results_main example_results_main) \<and>
   sorted_wrt (\<lambda>a b. \<exists>p q. Profit' (snd a) = Finite p \<and> Profit' (snd b) = Finite q \<and> q \<le> p)
     (sorted_results_test example_results_test) \<and>
   mset (sorted_results_main example_results_main) = mset example_results_main \<and>
   mset (sorted_results_test example_results_test) = mset example_results_test"
proof -
  have pm: "map (\<lambda>x. Profit (snd x)) example_results_main = [Finite 2, Finite 5, Finite 2]"
    by (simp add: example_results_main_def)
  have pt: "map (\<lambda>x. Profit' (snd x)) example_results_test
      = [Finite (- 1), Finite 2, Finite (- 1)]"
    by (simp add: example_results_test_def)
  have fm: "\<forall>x\<in>set example_results_main. Profit (snd x) \<noteq> NonFinite"
    by (simp add: example_results_main_def)
  have ft: "\<forall>x\<in>set example_results_test. Profit' (snd x) \<noteq> NonFinite"
    by (simp add: example_results_test_def)
  have om: "map fst (sorted_results_main example_results_main) = [''WMT'', ''AAPL'', ''MSFT'']"
    by (simp add: sorted_results_main_def py_sorted_reverse_def example_results_main_def)
  have ot: "map fst (sorted_results_test example_results_test) = [''WMT'', ''AAPL'', ''MSFT'']"
    by (simp add: sorted_results_test_def py_sorted_reverse_def example_results_test_def)
  from ranking_descending_stable[of example_results_main example_results_test] fm ft
  have "sorted_wrt (\<lambda>a b. \<exists>p q. Profit (snd a) = Finite p \<and> Profit (snd b) = Finite q \<and> q \<le> p)
     (sorted_results_main example_results_main)"
    and "sorted_wrt (\<lambda>a b. \<exists>p q. Profit' (snd a) = Finite p \<and> Profit' (snd b) = Finite q \<and> q \<le> p)
     (sorted_results_test example_results_test)"
    and "mset (sorted_results_main example_results_main) = mset example_results_main"
    and "mset (sorted_results_test example_results_test) = mset example_results_test"
    by blast+
  with pm pt om ot show ?thesis
    by (intro conjI)
qed

subsection \<open>A stock without the purchase date\<close>

lemma process_main_absent:
  "map_of dir (stock_name @ ''.csv'') = Some f \<Longrightarrow> required_columns f \<Longrightarrow>
   \<forall>r\<in>set (dropna (rows f)). strftime_Ymd (Date r) \<noteq> purchase_date \<Longrightarrow>
   process_main dir total_budget split_pct purchase_date stock_name = Inl PurchaseDateNotFound"
proof -
  assume f: "map_of dir (stock_name @ ''.csv'') = Some f" and cols: "required_columns f"
    and absent: "\<forall>r\<in>set (dropna (rows f)). strftime_Ymd (Date r) \<noteq> purchase_date"
  from absent have "filter (\<lambda>r. strftime_Ymd (Date r) = purchase_date) (dropna (rows f)) = []"
    by (simp add: filter_empty_conv)
  then show ?thesis
    by (simp add: process_main_def f cols lump_sum_def)
qed

lemma np_sum_Nil:
  "np_sum [] = Finite 0"
  by (simp add: np_sum_def)

text \<open>
  Claim C7. When the file of a stock of the basket has no row at the purchase date, the
  lump-sum script skips that stock and the stock is no key of the results. Every stock
  has the result of its own file, or none when it is skipped, whatever happens to the
  other stocks. With a budget that is not zero the script runs to its end: the table
  holds the results, the sum is the sum of their profits and the percentage is that sum
  divided by the budget, times 100.
\<close>

theorem absent_purchase_date_skips_one_stock:
  "stock_name \<in> set target_files \<and> map_of dir (stock_name @ ''.csv'') = Some f \<and>
   required_columns f \<and>
   (\<forall>r\<in>set (dropna (rows f)). strftime_Ymd (Date r) \<noteq> purchase_date) \<and>
   total_budget \<noteq> 0 \<and>
   results = results_main dir total_budget (1 / of_nat (length target_files)) purchase_date
               target_files \<longrightarrow>
     process_main dir total_budget (1 / of_nat (length target_files)) purchase_date stock_name
       = Inl PurchaseDateNotFound \<and>
     map_of results stock_name = None \<and>
     (\<forall>other. map_of results other =
        (if other \<in> set target_files
         then (case process_main dir total_budget (1 / of_nat (length target_files))
                      purchase_date other of
                 Inl _ \<Rightarrow> None | Inr r \<Rightarrow> Some r)
         else None)) \<and>
     (\<exists>report. main_py (Some dir) target_files purchase_date total_budget = Inr report \<and>
        mset (table_main report) = mset results \<and>
        stock_name \<notin> fst ` set (table_main report) \<and>
        sum_main report = np_sum (map (\<lambda>x. Profit (snd x)) results) \<and>
        percent_main report = np_mul (np_div (sum_main report) total_budget) 100)"
proof (intro impI, elim conjE)
  let ?sp = "1 / of_nat (length target_files) :: rat"
  assume member: "stock_name \<in> set target_files"
    and f: "map_of dir (stock_name @ ''.csv'') = Some f" and cols: "required_columns f"
    and absent: "\<forall>r\<in>set (dropna (rows f)). strftime_Ymd (Date r) \<noteq> purchase_date"
    and budget: "total_budget \<noteq> 0"
    and results: "results = results_main dir total_budget ?sp purchase_date target_files"
  have skipped: "process_main dir total_budget ?sp purchase_date stock_name
       = Inl PurchaseDateNotFound"
    using f cols absent by (rule process_main_absent)
  have lookup: "map_of results other =
        (if other \<in> set target_files
         then (case process_main dir total_budget ?sp purchase_date other of
                 Inl _ \<Rightarrow> None | Inr r \<Rightarrow> Some r)
         else None)" for other
    unfolding results results_main_def by (simp add: results_main_lookup split: sum.splits)
  have none: "map_of results stock_name = None"
    using member skipped by (simp add: lookup)
  have split: "split_percentage target_files = Inr ?sp"
    using member by (auto simp: split_percentage_def)
  have dir: "dir \<noteq> []"
    using f by auto
  have pct: "total_profit_percent_main results total_budget
      = Inr (np_mul (np_div (total_profit_main results) total_budget) 100)"
    using budget by (simp add: total_profit_percent_main_def total_profit_main_def np_sum_Nil)
  let ?report = "\<lparr>table_main = sorted_results_main results,
                   sum_main = total_profit_main results,
                   percent_main = np_mul (np_div (total_profit_main results) total_budget) 100\<rparr>"
  have run: "main_py (Some dir) target_files purchase_date total_budget = Inr ?report"
    using split dir pct by (simp add: main_py_def Let_def results[symmetric])
  have perm: "mset (table_main ?report) = mset results"
    by (simp add: sorted_results_main_def mset_py_sorted_reverse)
  then have "set (table_main ?report) = set results"
    by (rule mset_eq_setD)
  moreover have "stock_name \<notin> fst ` set results"
    using none by (simp add: map_of_eq_None_iff)
  ultimately have gone: "stock_name \<notin> fst ` set (table_main ?report)"
    by simp
  have sum: "sum_main ?report = np_sum (map (\<lambda>x. Profit (snd x)) results)"
    by (simp add: total_profit_main_def)
  have percent: "percent_main ?report = np_mul (np_div (sum_main ?report) total_budget) 100"
    by simp
  show "process_main dir total_budget ?sp purchase_date stock_name = Inl PurchaseDateNotFound \<and>
     map_of results stock_name = None \<and>
     (\<forall>other. map_of results other =
        (if other \<in> set target_files
         then (case process_main dir total_budget ?sp purchase_date other of
                 Inl _ \<Rightarrow> None | Inr r \<Rightarrow> Some r)
         else None)) \<and>
     (\<exists>report. main_py (Some dir) target_files purchase_date total_budget = Inr report \<and>
        mset (table_main report) = mset results \<and>
        stock_name \<notin> fst ` set (table_main report) \<and>
        sum_main report = np_sum (map (\<lambda>x. Profit (snd x)) results) \<and>
        percent_main report = np_mul (np_div (sum_main report) total_budget) 100)"
  proof (intro conjI allI exI)
    show "process_main dir total_budget ?sp purchase_date stock_name = Inl PurchaseDateNotFound"
      by (rule skipped)
    show "map_of results stock_name = None" by (rule none)
    show "map_of results other =
        (if other \<in> set target_files
         then (case process_main dir total_budget ?sp purchase_date other of
                 Inl _ \<Rightarrow> None | Inr r \<Rightarrow> Some r)
         else None)" for other
      by (rule lookup)
    show "main_py (Some dir) target_files purchase_date total_budget = Inr ?report" by (rule run)
    show "mset (table_main ?report) = mset results" by (rule perm)
    show "stock_name \<notin> fst ` set (table_main ?report)" by (rule gone)
    show "sum_main ?report = np_sum (map (\<lambda>x. Profit (snd x)) results)" by (rule sum)
    show "percent_main ?report = np_mul (np_div (sum_main ?report) total_budget) 100"
      by (rule percent)
  qed
qed

text \<open>
  The example file has no row on 2024-03-20 and the quiet file has one: the first stock
  is skipped and the second one is stored.
\<close>

theorem absent_purchase_date_skips_one_stock_witness:
  "''AAPL'' \<in> set [''AAPL'', ''WMT''] \<and>
   map_of [(''AAPL.csv'', example_file), (''WMT.csv'', quiet_file)] (''AAPL'' @ ''.csv'')
     = Some example_file \<and>
   required_columns example_file \<and>
   filter (\<lambda>r. strftime_Ymd (Date r) = ymd 2024 3 20) (dropna (rows example_file)) = [] \<and>
   (900 :: rat) \<noteq> 0 \<and>
   map_of (results_main [(''AAPL.csv'', example_file), (''WMT.csv'', quiet_file)] 900
             (1 / of_nat (length [''AAPL'', ''WMT''])) (ymd 2024 3 20) [''AAPL'', ''WMT''])
       ''AAPL'' = None \<and>
   map_of (results_main [(''AAPL.csv'', example_file), (''WMT.csv'', quiet_file)] 900
             (1 / of_nat (length [''AAPL'', ''WMT''])) (ymd 2024 3 20) [''AAPL'', ''WMT''])
       ''WMT'' =
     Some \<lparr>Shares_Bought = Finite (9 / 2), Purchase_Price = 100, Selling_Price = 110,
            Profit = Finite 45, Profit_Percentage = Finite 10\<rparr> \<and>
   (\<exists>report.
      main_py (Some [(''AAPL.csv'', example_file), (''WMT.csv'', quiet_file)])
        [''AAPL'', ''WMT''] (ymd 2024 3 20) 900 = Inr report \<and>
      ''AAPL'' \<notin> fst ` set (table_main report))"
proof -
  let ?dir = "[(''AAPL.csv'', example_file), (''WMT.csv'', quiet_file)]"
  let ?results = "results_main ?dir 900 (1 / of_nat (length [''AAPL'', ''WMT'']))
      (ymd 2024 3 20) [''AAPL'', ''WMT'']"
  have member: "''AAPL'' \<in> set [''AAPL'', ''WMT'']"
    by simp
  have found: "map_of ?dir (''AAPL'' @ ''.csv'') = Some example_file"
    by simp
  have cols: "required_columns example_file"
    by (simp add: required_columns_def example_file_def)
  have none: "filter (\<lambda>r. strftime_Ymd (Date r) = ymd 2024 3 20) (dropna (rows example_file)) = []"
    by (simp add: example_file_def ts_defs)
  then have absent: "\<forall>r\<in>set (dropna (rows example_file)). strftime_Ymd (Date r) \<noteq> ymd 2024 3 20"
    by (simp add: filter_empty_conv)
  have budget: "(900 :: rat) \<noteq> 0"
    by simp
  have other: "process_main ?dir 900 (1 / of_nat (length [''AAPL'', ''WMT''])) (ymd 2024 3 20)
      ''WMT'' =
     Inr \<lparr>Shares_Bought = Finite (9 / 2), Purchase_Price = 100, Selling_Price = 110,
           Profit = Finite 45, Profit_Percentage = Finite 10\<rparr>"
    by (simp add: process_main_def required_columns_def quiet_file_def lump_sum_def Let_def
        ts_defs)
  from absent_purchase_date_skips_one_stock
    [where stock_name = "''AAPL''" and target_files = "[''AAPL'', ''WMT'']" and dir = ?dir
       and f = example_file and purchase_date = "ymd 2024 3 20" and total_budget = 900
       and results = ?results]
    member found cols absent budget
  have gone: "map_of ?results ''AAPL'' = None"
    and each: "\<forall>other. map_of ?results other =
        (if other \<in> set [''AAPL'', ''WMT'']
         then (case process_main ?dir 900 (1 / of_nat (length [''AAPL'', ''WMT'']))
                      (ymd 2024 3 20) other of
                 Inl _ \<Rightarrow> None | Inr r \<Rightarrow> Some r)
         else None)"
    and run: "\<exists>report. main_py (Some ?dir) [''AAPL'', ''WMT''] (ymd 2024 3 20) 900 = Inr report \<and>
      ''AAPL'' \<notin> fst ` set (table_main report)"
    by blast+
  have kept: "map_of ?results ''WMT'' =
     Some \<lparr>Shares_Bought = Finite (9 / 2), Purchase_Price = 100, Selling_Price = 110,
            Profit = Finite 45, Profit_Percentage = Finite 10\<rparr>"
    using spec[OF each, of "''WMT''"] other by simp
  from member found cols none budget gone kept run show ?thesis
    by (intro conjI)
qed

subsection \<open>The guard of the percentage\<close>

lemma np_div_positive_finite:
  "0 < b \<Longrightarrow> a \<noteq> NonFinite \<Longrightarrow> np_mul (np_div a b) 100 \<noteq> NonFinite"
  by (cases a) simp_all

text \<open>
  Claim C8. The monthly script divides the profit by the total investment only when the
  total investment is positive; otherwise the percentage is 0. So a total investment of
  0 gives the percentage 0, and a finite profit gives a finite percentage. The same
  holds for the totals of the run, and with a basket that is not empty the run does not
  end with a division by zero.
\<close>

theorem zero_investment_guard:
  "(monthly pandas monthly_budget split_pct start_investment_date parsed = Inr (r, history) \<longrightarrow>
      Profit_Percentage' r =
        (if 0 < Total_Investment r
         then np_mul (np_div (Profit' r) (Total_Investment r)) 100 else Finite 0) \<and>
      (Total_Investment r = 0 \<longrightarrow> Profit_Percentage' r = Finite 0) \<and>
      (Profit' r \<noteq> NonFinite \<longrightarrow> Profit_Percentage' r \<noteq> NonFinite)) \<and>
   total_profit_percent_test results =
     (if 0 < total_investment_test results
      then np_mul (np_div (total_profit_test results) (total_investment_test results)) 100
      else Finite 0) \<and>
   (total_investment_test results = 0 \<longrightarrow> total_profit_percent_test results = Finite 0) \<and>
   (total_profit_test results \<noteq> NonFinite \<longrightarrow> total_profit_percent_test results \<noteq> NonFinite) \<and>
   (target_files \<noteq> [] \<longrightarrow>
      test_py pandas data_dir target_files start_investment_date monthly_budget
        \<noteq> Inl ZeroDivisionError)"
proof (intro conjI impI)
  assume run: "monthly pandas monthly_budget split_pct start_investment_date parsed = Inr (r, history)"
  then show formula: "Profit_Percentage' r =
        (if 0 < Total_Investment r
         then np_mul (np_div (Profit' r) (Total_Investment r)) 100 else Finite 0)"
    by (auto simp: monthly_def Let_def split: if_splits prod.splits)
  then show "Profit_Percentage' r = Finite 0" if "Total_Investment r = 0"
    using that by simp
  from formula show "Profit_Percentage' r \<noteq> NonFinite" if "Profit' r \<noteq> NonFinite"
    using that by (simp add: np_div_positive_finite)
next
  show "total_profit_percent_test results =
     (if 0 < total_investment_test results
      then np_mul (np_div (total_profit_test results) (total_investment_test results)) 100
      else Finite 0)"
    by (simp add: total_profit_percent_test_def Let_def)
  show "total_profit_percent_test results = Finite 0" if "total_investment_test results = 0"
    using that by (simp add: total_profit_percent_test_def Let_def)
  show "total_profit_percent_test results \<noteq> NonFinite" if "total_profit_test results \<noteq> NonFinite"
    using that by (simp add: total_profit_percent_test_def Let_def np_div_positive_finite)
  show "test_py pandas data_dir target_files start_investment_date monthly_budget
        \<noteq> Inl ZeroDivisionError" if "target_files \<noteq> []"
    using that by (simp add: test_py_def split_percentage_def Let_def split: option.splits)
qed

text \<open>On the quiet file nothing is invested and both percentages are 0.\<close>

theorem zero_investment_guard_witness:
  "monthly Pandas_3 100 (1 / 2) (at_time (ymd 2024 3 1) 0) (dropna (rows quiet_file)) =
     Inr (\<lparr>Total_Shares = Finite 0, Total_Investment = 0, Final_Price = 110,
           Profit' = Finite 0, Profit_Percentage' = Finite 0\<rparr>, []) \<and>
   Total_Investment \<lparr>Total_Shares = Finite 0, Total_Investment = 0, Final_Price = 110,
           Profit' = Finite 0, Profit_Percentage' = Finite 0\<rparr> = 0 \<and>
   total_investment_test
     [(''AAPL'', \<lparr>Total_Shares = Finite 0, Total_Investment = 0, Final_Price = 110,
           Profit' = Finite 0, Profit_Percentage' = Finite 0\<rparr>)] = 0 \<and>
   total_profit_test
     [(''AAPL'', \<lparr>Total_Shares = Finite 0, Total_Investment = 0, Final_Price = 110,
           Profit' = Finite 0, Profit_Percentage' = Finite 0\<rparr>)] \<noteq> NonFinite \<and>
   [''AAPL''] \<noteq> [] \<and>
   total_profit_percent_test
     [(''AAPL'', \<lparr>Total_Shares = Finite 0, Total_Investment = 0, Final_Price = 110,
           Profit' = Finite 0, Profit_Percentage' = Finite 0\<rparr>)] = Finite 0 \<and>
   test_py Pandas_3 (Some [(''AAPL.csv'', quiet_file)]) [''AAPL''] (at_time (ymd 2024 3 1) 0) 100
     \<noteq> Inl ZeroDivisionError"
proof -
  let ?r = "\<lparr>Total_Shares = Finite 0, Total_Investment = 0, Final_Price = 110,
           Profit' = Finite 0, Profit_Percentage' = Finite 0\<rparr>"
  have run: "monthly Pandas_3 100 (1 / 2) (at_time (ymd 2024 3 1) 0) (dropna (rows quiet_file)) =
     Inr (?r, [])"
    unfolding monthly_def quiet_data_restrict[symmetric] Let_def
    by (simp add: quiet_monthly_dates) (simp add: quiet_data_def)
  have zero: "Total_Investment ?r = 0"
    by simp
  have finite: "Profit' ?r \<noteq> NonFinite"
    by simp
  have invested: "total_investment_test [(''AAPL'', ?r)] = 0"
    by (simp add: total_investment_test_def)
  have profit: "total_profit_test [(''AAPL'', ?r)] \<noteq> NonFinite"
    by (simp add: total_profit_test_def np_sum_def)
  have basket: "[''AAPL''] \<noteq> []"
    by simp
  from zero_investment_guard
    [where pandas = Pandas_3 and monthly_budget = 100 and split_pct = "1 / 2"
       and start_investment_date = "at_time (ymd 2024 3 1) 0"
       and parsed = "dropna (rows quiet_file)" and r = ?r and history = "[]"
       and results = "[(''AAPL'', ?r)]" and target_files = "[''AAPL'']"
       and data_dir = "Some [(''AAPL.csv'', quiet_file)]"]
    run zero finite invested profit basket
  have "total_profit_percent_test [(''AAPL'', ?r)] = Finite 0"
    and "test_py Pandas_3 (Some [(''AAPL.csv'', quiet_file)]) [''AAPL''] (at_time (ymd 2024 3 1) 0) 100
     \<noteq> Inl ZeroDivisionError"
    by blast+
  with run zero invested profit basket show ?thesis
    by (intro conjI)
qed

end
